theory Spec2Isabelle
  imports Complex_Main
begin

section \<open>Numbers and failures\<close>

text \<open>
  The engine computes with Python floats. They are modelled as real numbers: rounding,
  overflow and underflow are outside the model, and the equations below are equations of
  exact arithmetic. The one exception is the reset of the energy at a pressure-break tank
  (\<open>tanque\<close>), where the source subtracts a rounded difference from the energy it was
  taken from: there every operation is followed by \<open>fl64\<close>, the rounding of a real number
  to the nearest double (53 significant bits, ties to the even significand, the exponent
  unbounded).

  Four things can go wrong in the source and are branches of the model:
  \<^item> \<open>ZeroDivisionError\<close>: Python's \<open>/\<close> on floats raises it on a zero divisor;
  \<^item> \<open>KeyError\<close>: a dictionary read of a missing key;
  \<^item> \<open>NotReal\<close>: numpy does not raise where Python would (\<open>np.log10\<close> of a
    non-positive number, a numpy division by zero, \<open>np.sqrt\<close> of a negative number) and
    Python's \<open>**\<close> turns a negative base with a fractional exponent into a complex
    number. The source goes on with \<open>nan\<close>, \<open>inf\<close> or a complex value there; no real
    number stands for it, so the model stops with \<open>NotReal\<close>;
  \<^item> \<open>SolverError\<close>: the external root finder raised.

  The Reynolds number is written \<open>Rey\<close>, since \<open>Re\<close> is the real part of a complex
  number in HOL.
\<close>

datatype py_error = ZeroDivisionError | KeyError | NotReal | SolverError

definition bind_r :: "py_error + 'a \<Rightarrow> ('a \<Rightarrow> py_error + 'b) \<Rightarrow> py_error + 'b" where
  "bind_r m k = (case m of Inl e \<Rightarrow> Inl e | Inr x \<Rightarrow> k x)"

definition py_div :: "real \<Rightarrow> real \<Rightarrow> py_error + real" where
  \<comment> \<open>\<open>a / b\<close> on Python floats\<close>
  "py_div a b = (if b = 0 then Inl ZeroDivisionError else Inr (a / b))"

definition py_pow :: "real \<Rightarrow> real \<Rightarrow> py_error + real" where
  \<comment> \<open>\<open>a ** b\<close> on Python floats, for a fractional positive exponent \<open>b\<close>\<close>
  "py_pow a b = (if a < 0 then Inl NotReal else Inr (a powr b))"

definition np_div :: "real \<Rightarrow> real \<Rightarrow> py_error + real" where
  \<comment> \<open>\<open>a / b\<close> where an operand is a numpy float: \<open>inf\<close> or \<open>nan\<close> on a zero divisor\<close>
  "np_div a b = (if b = 0 then Inl NotReal else Inr (a / b))"

definition np_log10 :: "real \<Rightarrow> py_error + real" where
  "np_log10 x = (if x \<le> 0 then Inl NotReal else Inr (log 10 x))"

definition np_sqrt :: "real \<Rightarrow> py_error + real" where
  "np_sqrt x = (if x < 0 then Inl NotReal else Inr (sqrt x))"

definition round_even :: "real \<Rightarrow> int" where
  \<comment> \<open>the nearest integer, the even one of two that are equally near\<close>
  "round_even q =
     (let n = \<lfloor>q\<rfloor>; d = q - of_int n
      in if d < 1 / 2 then n else if d > 1 / 2 then n + 1 else if even n then n else n + 1)"

definition fl64 :: "real \<Rightarrow> real" where
  \<comment> \<open>the nearest multiple of \<open>2 ^ (e - 52)\<close>, where \<open>2 ^ e \<le> |x| < 2 ^ (e + 1)\<close>\<close>
  "fl64 x =
     (if x = 0 then 0
      else let e = \<lfloor>log 2 \<bar>x\<bar>\<rfloor> - 52
           in of_int (round_even (x / 2 powr of_int e)) * 2 powr of_int e)"

section \<open>Property calculators (core/hidraulica.py)\<close>

definition g :: real where
  "g = 9.81"

definition area_seccion :: "real \<Rightarrow> real" where
  "area_seccion D = pi * D\<^sup>2 / 4"

definition velocidad :: "real \<Rightarrow> real \<Rightarrow> py_error + real" where
  "velocidad Q A = py_div Q A"

definition carga_cinetica :: "real \<Rightarrow> real" where
  "carga_cinetica v = v\<^sup>2 / (2 * g)"

definition reynolds :: "real \<Rightarrow> real \<Rightarrow> real \<Rightarrow> real \<Rightarrow> py_error + real" where
  "reynolds rho v D mu = py_div (rho * v * D) mu"

section \<open>Friction factors\<close>

definition f_haaland :: "real \<Rightarrow> real \<Rightarrow> real \<Rightarrow> py_error + real" where
  "f_haaland Rey epsilon D =
     (if Rey \<le> 0 then Inr 0
      else bind_r (py_div epsilon D) (\<lambda>rel.
           bind_r (py_pow (rel / 3.7) 1.11) (\<lambda>p.
           let termino = p + 6.9 / Rey in
           bind_r (np_log10 termino) (\<lambda>lg.
           let inv_sqrt_f = - 1.8 * lg in
           np_div 1.0 (inv_sqrt_f\<^sup>2)))))"

text \<open>
  The residual \<open>ecuacion\<close> is the inner function of \<open>f_colebrook\<close>; it closes over
  \<open>Rey\<close>, \<open>epsilon\<close> and \<open>D\<close>. \<open>colebrook_arg\<close> names the argument it hands to
  \<open>np.log10\<close>.
\<close>

definition colebrook_arg :: "real \<Rightarrow> real \<Rightarrow> real \<Rightarrow> real \<Rightarrow> real" where
  "colebrook_arg Rey epsilon D f = epsilon / D / 3.7 + 2.51 / (Rey * sqrt f)"

definition ecuacion :: "real \<Rightarrow> real \<Rightarrow> real \<Rightarrow> real \<Rightarrow> py_error + real" where
  "ecuacion Rey epsilon D f =
     (if f \<le> 0 then Inr 1.0
      else bind_r (np_sqrt f) (\<lambda>sf.
           bind_r (np_div 1.0 sf) (\<lambda>inv.
           bind_r (py_div epsilon D) (\<lambda>rel.
           bind_r (np_div 2.51 (Rey * sf)) (\<lambda>t.
           bind_r (np_log10 (rel / 3.7 + t)) (\<lambda>lg.
           Inr (inv + 2.0 * lg)))))))"

text \<open>
  \<open>scipy.optimize.fsolve\<close> is not code of the repository, so the root finder is a
  parameter: given the residual and the seed it either raises or stops at a final iterate
  with an integer status \<open>ier\<close> (1 means that the tolerance was reached). \<open>f_colebrook\<close>
  calls it with \<open>full_output=False\<close>, which hands back the iterate alone.
\<close>

type_synonym fsolve = "(real \<Rightarrow> py_error + real) \<Rightarrow> real \<Rightarrow> py_error + real \<times> int"

definition f_colebrook :: "fsolve \<Rightarrow> real \<Rightarrow> real \<Rightarrow> real \<Rightarrow> py_error + real" where
  "f_colebrook solver Rey epsilon D =
     (if Rey \<le> 0 then Inr 0
      else bind_r (f_haaland Rey epsilon D) (\<lambda>f0.
           bind_r (solver (ecuacion Rey epsilon D) f0) (\<lambda>sol.
           Inr (fst sol))))"

text \<open>
  A root finder that gives up at once, for the closed examples below: it returns the seed
  as its final iterate, with status 5 (the iteration is not making progress).
\<close>

definition fsolve_stalled :: fsolve where
  "fsolve_stalled residual x0 = Inr (x0, 5)"

text \<open>
  A second root finder for the closed examples: it evaluates the residual at the seed,
  stops there, and reports status 1 only if the residual is zero at the seed.
\<close>

definition fsolve_seed_check :: fsolve where
  "fsolve_seed_check residual x0 =
     bind_r (residual x0) (\<lambda>res. Inr (x0, if res = 0 then 1 else 5))"

definition f_swamee_jain :: "real \<Rightarrow> real \<Rightarrow> real \<Rightarrow> py_error + real" where
  "f_swamee_jain Rey epsilon D =
     (if Rey \<le> 0 then Inr 0
      else bind_r (py_div epsilon (3.7 * D)) (\<lambda>rel.
           let termino = rel + 5.74 / (Rey powr 0.9) in
           bind_r (np_log10 termino) (\<lambda>lg.
           np_div 0.25 (lg\<^sup>2))))"

section \<open>Losses, head and power\<close>

definition perdidas_darcy :: "real \<Rightarrow> real \<Rightarrow> real \<Rightarrow> real \<Rightarrow> py_error + real" where
  "perdidas_darcy f L D v =
     bind_r (py_div L D) (\<lambda>LD. Inr (f * LD * v\<^sup>2 / (2 * g)))"

definition perdidas_menores :: "real \<Rightarrow> real \<Rightarrow> real" where
  "perdidas_menores K v = K * v\<^sup>2 / (2 * g)"

definition carga_total :: "real \<Rightarrow> real \<Rightarrow> real \<Rightarrow> real" where
  "carga_total dz hf hm = dz + hf + hm"

definition potencia_bomba :: "real \<Rightarrow> real \<Rightarrow> real \<Rightarrow> real" where
  "potencia_bomba rho Q H = rho * g * Q * H / 1000.0"

definition kw_a_hp :: "real \<Rightarrow> real" where
  "kw_a_hp P_kw = P_kw / 0.7457"

section \<open>The segment model\<close>

text \<open>
  The dictionary that \<open>calcular_tramo\<close> returns, key by key. A key that is also the name
  of a function above carries the suffix \<open>_res\<close>.
\<close>

record tramo_result =
  area :: real
  velocidad_res :: real
  carga_cinetica_res :: real
  reynolds_res :: real
  f_colebrook_res :: real
  f_haaland_res :: real
  f_swamee_jain_res :: real
  longitud_estacion :: real
  perdidas_friccion_colebrook :: real
  perdidas_friccion_haaland :: real
  perdidas_menores_res :: real
  z_estacion :: real
  carga_estacion :: real
  carga_total_res :: real
  potencia_kw :: real
  potencia_hp :: real
  num_estaciones_res :: int
  es_bajada_res :: bool

definition calcular_tramo ::
  "fsolve \<Rightarrow> real \<Rightarrow> real \<Rightarrow> real \<Rightarrow> real \<Rightarrow> real \<Rightarrow> real \<Rightarrow> real \<Rightarrow> real \<Rightarrow> int \<Rightarrow> bool
     \<Rightarrow> py_error + tramo_result" where
  "calcular_tramo solver Q D L dz rho mu epsilon K n bajada =
     (let A = area_seccion D in
      bind_r (velocidad Q A) (\<lambda>v.
      let hv = carga_cinetica v in
      bind_r (reynolds rho v D mu) (\<lambda>Rey.
      bind_r (f_colebrook solver Rey epsilon D) (\<lambda>f_col.
      bind_r (f_haaland Rey epsilon D) (\<lambda>f_haa.
      bind_r (f_swamee_jain Rey epsilon D) (\<lambda>f_swa.
      let L_estacion = (if n > 0 then L / real_of_int n else L) in
      bind_r (perdidas_darcy f_col L_estacion D v) (\<lambda>hf_crane.
      bind_r (perdidas_darcy f_haa L_estacion D v) (\<lambda>hf_haaland.
      let hm = perdidas_menores K v;
          z_est = (if n > 0 then dz / real_of_int n else dz);
          H_estacion = carga_total \<bar>z_est\<bar> hf_crane hm;
          H_total = H_estacion * real_of_int n;
          P_kw = (if bajada then 0.0 else potencia_bomba rho Q H_estacion);
          P_hp = (if bajada then 0.0 else kw_a_hp P_kw)
      in Inr \<lparr> area = A, velocidad_res = v, carga_cinetica_res = hv, reynolds_res = Rey,
               f_colebrook_res = f_col, f_haaland_res = f_haa, f_swamee_jain_res = f_swa,
               longitud_estacion = L_estacion,
               perdidas_friccion_colebrook = hf_crane,
               perdidas_friccion_haaland = hf_haaland,
               perdidas_menores_res = hm, z_estacion = z_est,
               carga_estacion = H_estacion, carga_total_res = H_total,
               potencia_kw = P_kw, potencia_hp = P_hp,
               num_estaciones_res = n, es_bajada_res = bajada \<rparr>))))))))"

section \<open>The segment registry (core/tramos.py)\<close>

text \<open>
  One record per entry of the dictionary that \<open>obtener_definicion_tramos\<close> builds. The
  free-text keys \<open>nombre\<close> and \<open>notas\<close> are display strings that no computation reads;
  they are left out. \<open>tipo\<close> takes two values in the registry. A fitting is the pair of
  its \<open>cantidad\<close> and its \<open>K\<close>. A key that only some segments carry is an option; the
  key \<open>tanque_rompe_presion\<close> is read by the energy trace and set by no segment.
\<close>

datatype tipo_control = Bomba | Valvula_de_estrangulamiento

record tramo_def =
  distancia :: real
  altura :: real
  pendiente :: real
  longitud_tuberia :: real
  z :: real
  num_estaciones :: int
  es_bajada :: bool
  tipo :: tipo_control
  accesorios :: "(int \<times> real) list"
  K_total :: real
  K_valvula_estrangulamiento :: "real option"
  sub_segmentos :: "(real \<times> real option) list option"
  tanque_rompe_presion :: "bool option"

definition tramo_1 :: tramo_def where
  "tramo_1 = \<lparr> distancia = 182.53, altura = 100.0, pendiente = 28.72,
     longitud_tuberia = 211.13, z = 100.0, num_estaciones = 1, es_bajada = False,
     tipo = Bomba,
     accesorios = [(1, 0.5), (2, 0.12), (0, 0.0), (0, 0.0), (1, 1.0)],
     K_total = 1.62, K_valvula_estrangulamiento = None, sub_segmentos = None,
     tanque_rompe_presion = None \<rparr>"

definition tramo_2 :: tramo_def where
  "tramo_2 = \<lparr> distancia = 112.39, altura = 200.0, pendiente = 60.67,
     longitud_tuberia = 235.42, z = 200.0, num_estaciones = 2, es_bajada = False,
     tipo = Bomba,
     accesorios = [(1, 0.5), (2, 0.375), (0, 1.5), (0, 0.12), (1, 1.0)],
     K_total = 3.87, K_valvula_estrangulamiento = None, sub_segmentos = None,
     tanque_rompe_presion = None \<rparr>"

definition tramo_3 :: tramo_def where
  "tramo_3 = \<lparr> distancia = 163.87, altura = 200.0, pendiente = 50.67,
     longitud_tuberia = 264.56, z = 200.0, num_estaciones = 2, es_bajada = False,
     tipo = Bomba,
     accesorios = [(1, 0.5), (2, 0.28), (0, 1.5), (0, 0.12), (1, 1.0)],
     K_total = 3.68, K_valvula_estrangulamiento = None, sub_segmentos = None,
     tanque_rompe_presion = None \<rparr>"

definition tramo_4 :: tramo_def where
  "tramo_4 = \<lparr> distancia = 251.55, altura = 0.0, pendiente = 0.0,
     longitud_tuberia = 254.55, z = 0.0, num_estaciones = 1, es_bajada = False,
     tipo = Bomba,
     accesorios = [(1, 0.5), (2, 0.45), (0, 1.5), (0, 0.12), (1, 1.0)],
     K_total = 4.02, K_valvula_estrangulamiento = None, sub_segmentos = None,
     tanque_rompe_presion = None \<rparr>"

definition tramo_5 :: tramo_def where
  "tramo_5 = \<lparr> distancia = 129.05, altura = - 200.0, pendiente = - 57.17,
     longitud_tuberia = 235.02, z = 0.0, num_estaciones = 1, es_bajada = True,
     tipo = Valvula_de_estrangulamiento,
     accesorios = [(1, 0.5), (2, 0.35), (0, 0.12), (1, 1.0)],
     K_total = 2.31, K_valvula_estrangulamiento = None, sub_segmentos = None,
     tanque_rompe_presion = None \<rparr>"

definition tramo_6 :: tramo_def where
  "tramo_6 = \<lparr> distancia = 71.33, altura = - 200.0, pendiente = - 70.37,
     longitud_tuberia = 209.34, z = 0.0, num_estaciones = 1, es_bajada = True,
     tipo = Valvula_de_estrangulamiento,
     accesorios = [(1, 0.5), (2, 0.53), (0, 0.12), (1, 1.0)],
     K_total = 2.68, K_valvula_estrangulamiento = Some 1077.42, sub_segmentos = None,
     tanque_rompe_presion = None \<rparr>"

definition tramo_7 :: tramo_def where
  "tramo_7 = \<lparr> distancia = 57.60, altura = - 100.0, pendiente = - 60.06,
     longitud_tuberia = 112.40, z = 0.0, num_estaciones = 1, es_bajada = True,
     tipo = Valvula_de_estrangulamiento,
     accesorios = [(1, 0.5), (2, 0.38), (0, 0.12), (1, 1.0)],
     K_total = 2.37, K_valvula_estrangulamiento = Some 1076.84, sub_segmentos = None,
     tanque_rompe_presion = None \<rparr>"

definition tramo_8 :: tramo_def where
  "tramo_8 = \<lparr> distancia = 1837.50, altura = 100.0, pendiente = 0.0,
     longitud_tuberia = 1911.52, z = 100.0, num_estaciones = 1, es_bajada = False,
     tipo = Bomba,
     accesorios = [(1, 0.5), (4, 0.45), (2, 0.375), (1, 0.12), (1, 1.5), (1, 1.0)],
     K_total = 5.67, K_valvula_estrangulamiento = None,
     sub_segmentos = Some [(250.0, Some 0), (0.0, Some (- 10)), (312.5, Some (- 10)),
       (25.0, Some (- 10)), (1187.5, Some (- 10)), (62.5, Some 100), (126.52, None)],
     tanque_rompe_presion = None \<rparr>"

text \<open>The dictionary, as the list of its items in insertion order.\<close>

definition obtener_definicion_tramos :: "(int \<times> tramo_def) list" where
  "obtener_definicion_tramos =
     [(1, tramo_1), (2, tramo_2), (3, tramo_3), (4, tramo_4),
      (5, tramo_5), (6, tramo_6), (7, tramo_7), (8, tramo_8)]"

definition lookup :: "(int \<times> 'a) list \<Rightarrow> int \<Rightarrow> py_error + 'a" where
  \<comment> \<open>\<open>d[k]\<close>\<close>
  "lookup d k = (case map_of d k of None \<Rightarrow> Inl KeyError | Some v \<Rightarrow> Inr v)"

section \<open>The system solver\<close>

text \<open>
  \<open>calcular_sistema_completo\<close> adds the registry's geometry to each segment's result;
  the keys added carry the suffix \<open>_res\<close>.
\<close>

record sistema_result = tramo_result +
  distancia_res :: real
  altura_res :: real
  pendiente_res :: real
  longitud_tuberia_res :: real
  tipo_res :: tipo_control
  accesorios_res :: "(int \<times> real) list"

definition eco :: "tramo_def \<Rightarrow> tramo_result \<Rightarrow> sistema_result" where
  "eco defn r = tramo_result.extend r
     (sistema_result.fields (distancia defn) (altura defn) (pendiente defn)
        (longitud_tuberia defn) (tipo defn) (accesorios defn))"

fun resolver_tramos ::
  "fsolve \<Rightarrow> real \<Rightarrow> real \<Rightarrow> real \<Rightarrow> real \<Rightarrow> real \<Rightarrow> (int \<times> tramo_def) list
     \<Rightarrow> py_error + (int \<times> sistema_result) list" where
  "resolver_tramos solver Q D rho mu epsilon [] = Inr []"
| "resolver_tramos solver Q D rho mu epsilon ((num_tramo, defn) # rest) =
     bind_r (calcular_tramo solver Q D (longitud_tuberia defn) (z defn) rho mu epsilon
               (K_total defn) (num_estaciones defn) (es_bajada defn)) (\<lambda>resultado.
     bind_r (resolver_tramos solver Q D rho mu epsilon rest) (\<lambda>resultados.
     Inr ((num_tramo, eco defn resultado) # resultados)))"

definition calcular_sistema_completo ::
  "fsolve \<Rightarrow> real \<Rightarrow> real \<Rightarrow> real \<Rightarrow> real \<Rightarrow> real \<Rightarrow> py_error + (int \<times> sistema_result) list" where
  "calcular_sistema_completo solver Q D rho mu epsilon =
     resolver_tramos solver Q D rho mu epsilon obtener_definicion_tramos"

text \<open>
  For the proofs: \<open>de_tramo\<close> relates an item of the registry to the item of the result
  that \<open>resolver_tramos\<close> computes from it.
\<close>

abbreviation de_tramo ::
  "fsolve \<Rightarrow> real \<Rightarrow> real \<Rightarrow> real \<Rightarrow> real \<Rightarrow> real
     \<Rightarrow> int \<times> tramo_def \<Rightarrow> int \<times> sistema_result \<Rightarrow> bool" where
  "de_tramo solver Q D rho mu epsilon p q \<equiv>
     fst q = fst p \<and>
     (\<exists>r0. calcular_tramo solver Q D (longitud_tuberia (snd p)) (z (snd p)) rho mu epsilon
              (K_total (snd p)) (num_estaciones (snd p)) (es_bajada (snd p)) = Inr r0
          \<and> snd q = eco (snd p) r0)"

section \<open>The energy trace (visualizaciones/mapa\_piezometrico.py)\<close>

text \<open>
  The first part of \<open>crear_mapa_piezometrico\<close> walks the segments, their stations and
  five points per station, and appends to the lists that the figure is drawn from. The
  state is those lists and the three running values. The label lists (\<open>etiquetas\<close>,
  \<open>bombas_label\<close>, \<open>valvulas_label\<close>) are formatted display text; they feed no number
  and are left out, as is the drawing of the figure.
\<close>

record traza =
  dist_puntos :: "real list"
  elev_puntos :: "real list"
  egl_puntos :: "real list"
  hgl_puntos :: "real list"
  presion_puntos :: "real list"
  dist_acum :: real
  elev_acum :: real
  energia_actual :: real
  bombas_x :: "real list"
  bombas_y_antes :: "real list"
  bombas_y_despues :: "real list"
  valvulas_x :: "real list"
  valvulas_y :: "real list"

definition traza_inicial :: traza where
  "traza_inicial = \<lparr> dist_puntos = [0.0], elev_puntos = [0.0], egl_puntos = [0.0],
     hgl_puntos = [0.0], presion_puntos = [0.0],
     dist_acum = 0.0, elev_acum = 0.0, energia_actual = 0.0,
     bombas_x = [], bombas_y_antes = [], bombas_y_despues = [],
     valvulas_x = [], valvulas_y = [] \<rparr>"

definition n_puntos_sub :: int where
  "n_puntos_sub = 5"

definition bomba :: "real \<Rightarrow> real \<Rightarrow> traza \<Rightarrow> traza" where
  \<comment> \<open>the pump jump at the start of a station of a pump segment\<close>
  "bomba H_bomba x_inicio s =
     s\<lparr> bombas_x := bombas_x s @ [x_inicio],
        bombas_y_antes := bombas_y_antes s @ [energia_actual s],
        energia_actual := energia_actual s + H_bomba,
        bombas_y_despues := bombas_y_despues s @ [energia_actual s + H_bomba] \<rparr>"

definition sub_paso ::
  "real \<Rightarrow> real \<Rightarrow> real \<Rightarrow> real \<Rightarrow> real \<Rightarrow> real \<Rightarrow> int \<Rightarrow> traza \<Rightarrow> traza" where
  \<comment> \<open>the body of the loop over \<open>j\<close>\<close>
  "sub_paso hv x_inicio dist_sub z_est hf_est hm_est j s =
     (let frac = real_of_int j / real_of_int n_puntos_sub;
          dx = dist_sub * frac;
          dz = z_est * frac;
          x_actual = x_inicio + dx;
          elev_actual = elev_acum s + dz;
          e = energia_actual s
                - (hf_est / real_of_int n_puntos_sub + (if j = 1 then hm_est else 0))
      in s\<lparr> energia_actual := e,
            dist_puntos := dist_puntos s @ [x_actual],
            elev_puntos := elev_puntos s @ [elev_actual],
            egl_puntos := egl_puntos s @ [e],
            hgl_puntos := hgl_puntos s @ [e - hv],
            presion_puntos := presion_puntos s @ [e - hv - elev_actual] \<rparr>)"

definition tanque :: "real \<Rightarrow> traza \<Rightarrow> traza" where
  \<comment> \<open>the branch \<open>tiene_tanque\<close>, in double arithmetic\<close>
  "tanque hv s =
     (let egl_meta = fl64 (elev_acum s + hv);
          perdida = fl64 (energia_actual s - egl_meta);
          s1 = s\<lparr> valvulas_x := valvulas_x s @ [dist_acum s],
                  valvulas_y := valvulas_y s @ [energia_actual s],
                  energia_actual := fl64 (energia_actual s - perdida) \<rparr>
      in if \<bar>perdida\<bar> > fl64 0.01
         then s1\<lparr> dist_puntos := dist_puntos s1 @ [dist_acum s1],
                  elev_puntos := elev_puntos s1 @ [elev_acum s1],
                  egl_puntos := egl_puntos s1 @ [energia_actual s1],
                  hgl_puntos := hgl_puntos s1 @ [fl64 (energia_actual s1 - hv)],
                  presion_puntos := presion_puntos s1
                    @ [fl64 (fl64 (energia_actual s1 - hv) - elev_acum s1)] \<rparr>
         else s1)"

definition sin_tanque :: "real \<Rightarrow> traza \<Rightarrow> traza" where
  \<comment> \<open>the branch without a tank: a marker, no reset\<close>
  "sin_tanque hv s =
     s\<lparr> valvulas_x := valvulas_x s @ [dist_acum s],
        valvulas_y := valvulas_y s @ [energia_actual s] \<rparr>"

definition recorrido ::
  "real \<Rightarrow> real \<Rightarrow> real \<Rightarrow> real \<Rightarrow> real \<Rightarrow> real \<Rightarrow> traza \<Rightarrow> traza" where
  \<comment> \<open>\<open>for j in range(1, n_puntos_sub + 1)\<close>\<close>
  "recorrido hv x_inicio dist_sub z_est hf_est hm_est s =
     fold (sub_paso hv x_inicio dist_sub z_est hf_est hm_est) [1..n_puntos_sub] s"

definition estacion ::
  "real \<Rightarrow> sistema_result \<Rightarrow> tramo_def \<Rightarrow> real \<Rightarrow> real \<Rightarrow> traza \<Rightarrow> traza" where
  \<comment> \<open>the body of the loop over \<open>est\<close>; it runs only when \<open>n_est \<ge> 1\<close>, so \<open>dist_tramo / n_est\<close>
      never divides by zero\<close>
  "estacion hv r defn dist_tramo z_est s =
     (let n_est = num_estaciones_res r;
          hf_est = perdidas_friccion_colebrook r;
          hm_est = perdidas_menores_res r;
          x_inicio = dist_acum s;
          s1 = (if \<not> es_bajada_res r then bomba (carga_estacion r) x_inicio s else s);
          dist_sub = dist_tramo / real_of_int n_est;
          s2 = recorrido hv x_inicio dist_sub z_est hf_est hm_est s1;
          s3 = s2\<lparr> elev_acum := elev_acum s2 + z_est,
                   dist_acum := dist_acum s2 + dist_sub \<rparr>
      in if es_bajada_res r
         then (if (case tanque_rompe_presion defn of None \<Rightarrow> True | Some b \<Rightarrow> b)
               then tanque hv s3 else sin_tanque hv s3)
         else s3)"

definition recorrer_tramo ::
  "real \<Rightarrow> (int \<times> sistema_result) list \<Rightarrow> int \<Rightarrow> traza \<Rightarrow> py_error + traza" where
  \<comment> \<open>the body of the loop over \<open>num_tramo\<close>\<close>
  "recorrer_tramo hv resultados num_tramo s =
     bind_r (lookup obtener_definicion_tramos (if num_tramo > 7 then 8 else num_tramo)) (\<lambda>d.
     let dist_tramo = distancia d in
     bind_r (lookup resultados num_tramo) (\<lambda>r.
     let n_est = num_estaciones_res r in
     bind_r (lookup obtener_definicion_tramos num_tramo) (\<lambda>defn.
     let z_total = altura defn;
         z_est = (if n_est > 0 then z_total / real_of_int n_est else z_total)
     in Inr (fold (\<lambda>est. estacion hv r defn dist_tramo z_est) [0..n_est - 1] s))))"

fun recorrer ::
  "real \<Rightarrow> (int \<times> sistema_result) list \<Rightarrow> int list \<Rightarrow> traza \<Rightarrow> py_error + traza" where
  "recorrer hv resultados [] s = Inr s"
| "recorrer hv resultados (num_tramo # rest) s =
     bind_r (recorrer_tramo hv resultados num_tramo s) (recorrer hv resultados rest)"

definition crear_mapa_piezometrico ::
  "(int \<times> sistema_result) list \<Rightarrow> real \<Rightarrow> real \<Rightarrow> py_error + traza" where
  "crear_mapa_piezometrico resultados Q D =
     bind_r (lookup resultados 1) (\<lambda>r1.
     let hv = carga_cinetica_res r1 in
     recorrer hv resultados [1..8] traza_inicial)"

section \<open>Basic facts\<close>

lemma bind_r_Inr [simp]: "bind_r (Inr x) k = k x"
  by (simp add: bind_r_def)

lemma bind_r_Inl [simp]: "bind_r (Inl e) k = Inl e"
  by (simp add: bind_r_def)

lemma bind_r_eq_Inr: "bind_r m k = Inr y \<longleftrightarrow> (\<exists>x. m = Inr x \<and> k x = Inr y)"
  by (cases m) simp_all

lemma area_seccion_eq_0 [simp]: "area_seccion D = 0 \<longleftrightarrow> D = 0"
  by (simp add: area_seccion_def)

lemma powr_le_self:
  fixes x a :: real
  assumes "0 \<le> x" "x \<le> 1" "1 \<le> a"
  shows "x powr a \<le> x"
proof (cases "x = 0")
  case True
  then show ?thesis by simp
next
  case False
  with assms have "0 < x" by simp
  then have "x powr a \<le> x powr 1" using assms by (intro powr_mono') simp_all
  then show ?thesis using \<open>0 < x\<close> by simp
qed

subsection \<open>Rounding to a double\<close>

lemma round_even_err: "\<bar>of_int (round_even q) - q\<bar> \<le> 1 / 2"
proof -
  have "of_int \<lfloor>q\<rfloor> \<le> q" "q < of_int \<lfloor>q\<rfloor> + 1" by linarith+
  then show ?thesis by (auto simp: round_even_def Let_def)
qed

lemma fl64_err: "\<bar>fl64 x - x\<bar> \<le> \<bar>x\<bar> / 2 ^ 53"
proof (cases "x = 0")
  case True
  then show ?thesis by (simp add: fl64_def)
next
  case False
  define k where "k = \<lfloor>log 2 \<bar>x\<bar>\<rfloor>"
  define u :: real where "u = 2 powr of_int (k - 52)"
  have upos: "0 < u" by (simp add: u_def)
  have "of_int k \<le> log 2 \<bar>x\<bar>" unfolding k_def by linarith
  then have "2 powr of_int k \<le> \<bar>x\<bar>" using False by (simp add: le_log_iff)
  moreover have "2 powr of_int k = u * 2 ^ 52"
    unfolding u_def by (simp add: powr_diff)
  ultimately have ux: "u * 2 ^ 52 \<le> \<bar>x\<bar>" by simp
  have f: "fl64 x = of_int (round_even (x / u)) * u"
    using False by (simp add: fl64_def Let_def k_def u_def)
  have "fl64 x - x = (of_int (round_even (x / u)) - x / u) * u"
    unfolding f using upos by (simp add: field_simps)
  then have "\<bar>fl64 x - x\<bar> = \<bar>of_int (round_even (x / u)) - x / u\<bar> * u"
    using upos by (simp add: abs_mult)
  also have "\<dots> \<le> (1 / 2) * u"
    using round_even_err[of "x / u"] upos by (intro mult_right_mono) simp_all
  also have "\<dots> \<le> \<bar>x\<bar> / 2 ^ 53" using ux by simp
  finally show ?thesis .
qed

lemma fl64_bound:
  assumes "\<bar>x\<bar> \<le> c"
  shows "\<bar>fl64 x - x\<bar> \<le> c / 2 ^ 53"
proof -
  have "\<bar>x\<bar> / 2 ^ 53 \<le> c / 2 ^ 53" using assms by (simp add: divide_right_mono)
  with fl64_err[of x] show ?thesis by linarith
qed

lemma fl64_binade:
  assumes "2 powr of_int k \<le> \<bar>x\<bar>" "\<bar>x\<bar> < 2 powr of_int (k + 1)"
  shows "fl64 x = of_int (round_even (x / 2 powr of_int (k - 52))) * 2 powr of_int (k - 52)"
proof -
  have pos: "0 < \<bar>x\<bar>" using assms(1) powr_gt_zero[of 2 "of_int k"] by linarith
  have "of_int k \<le> log 2 \<bar>x\<bar>" using assms(1) pos by (simp add: le_log_iff)
  moreover have "log 2 \<bar>x\<bar> < of_int k + 1"
    using assms(2) pos by (simp add: log_less_iff add.commute)
  ultimately have "\<lfloor>log 2 \<bar>x\<bar>\<rfloor> = k" by linarith
  then show ?thesis using pos by (simp add: fl64_def Let_def)
qed

lemma tanque_reset_err:
  assumes "\<bar>e\<bar> \<le> B" "\<bar>el\<bar> \<le> B" "\<bar>hv\<bar> \<le> B"
  shows "\<bar>fl64 (e - fl64 (e - fl64 (el + hv))) - (el + hv)\<bar> \<le> B / 2 ^ 50"
    and "\<bar>fl64 (fl64 (fl64 (e - fl64 (e - fl64 (el + hv))) - hv) - el)\<bar> \<le> B / 2 ^ 49"
proof -
  define m where "m = fl64 (el + hv)"
  define p where "p = fl64 (e - m)"
  define e' where "e' = fl64 (e - p)"
  define h where "h = fl64 (e' - hv)"
  define U :: real where "U = 1 / 2 ^ 53"
  have B0: "0 \<le> B" using assms(1) by linarith
  have s0: "\<bar>el + hv\<bar> \<le> 2 * B" using assms by linarith
  have d0: "\<bar>m - (el + hv)\<bar> \<le> 2 * B * U"
    using fl64_bound[OF s0] by (simp add: m_def U_def)
  have x1: "\<bar>e - m\<bar> \<le> 3 * B + 2 * B * U" using assms(1) s0 d0 by linarith
  have d1: "\<bar>p - (e - m)\<bar> \<le> (3 * B + 2 * B * U) * U"
    using fl64_bound[OF x1] by (simp add: p_def U_def)
  have x2: "\<bar>e - p\<bar> \<le> (2 * B + 2 * B * U) + (3 * B + 2 * B * U) * U"
    using s0 d0 d1 by linarith
  have d2: "\<bar>e' - (e - p)\<bar> \<le> ((2 * B + 2 * B * U) + (3 * B + 2 * B * U) * U) * U"
    using fl64_bound[OF x2] by (simp add: e'_def U_def)
  have r: "\<bar>e' - (el + hv)\<bar>
      \<le> 2 * B * U + (3 * B + 2 * B * U) * U
          + ((2 * B + 2 * B * U) + (3 * B + 2 * B * U) * U) * U"
    using d0 d1 d2 by linarith
  have c: "2 * B * U + (3 * B + 2 * B * U) * U
          + ((2 * B + 2 * B * U) + (3 * B + 2 * B * U) * U) * U
        = B * (7 * U + 7 * U * U + 2 * U * U * U)"
    by (simp add: algebra_simps)
  have "7 * U + 7 * U * U + 2 * U * U * U \<le> 1 / 2 ^ 50" by (simp add: U_def)
  then have "B * (7 * U + 7 * U * U + 2 * U * U * U) \<le> B * (1 / 2 ^ 50)"
    using B0 by (rule mult_left_mono)
  with r c have r': "\<bar>e' - (el + hv)\<bar> \<le> B / 2 ^ 50" by simp
  then show "\<bar>fl64 (e - fl64 (e - fl64 (el + hv))) - (el + hv)\<bar> \<le> B / 2 ^ 50"
    by (simp add: e'_def p_def m_def)
  define V :: real where "V = 1 / 2 ^ 50"
  have rV: "\<bar>e' - (el + hv)\<bar> \<le> B * V" using r' by (simp add: V_def)
  have x3: "\<bar>e' - hv\<bar> \<le> B + B * V" using rV assms(2) by linarith
  have d3: "\<bar>h - (e' - hv)\<bar> \<le> (B + B * V) * U"
    using fl64_bound[OF x3] by (simp add: h_def U_def)
  have x4: "\<bar>h - el\<bar> \<le> B * V + (B + B * V) * U" using rV d3 by linarith
  have d4: "\<bar>fl64 (h - el) - (h - el)\<bar> \<le> (B * V + (B + B * V) * U) * U"
    using fl64_bound[OF x4] by (simp add: U_def)
  have q: "\<bar>fl64 (h - el)\<bar>
      \<le> (B * V + (B + B * V) * U) + (B * V + (B + B * V) * U) * U"
    using x4 d4 by linarith
  have c2: "(B * V + (B + B * V) * U) + (B * V + (B + B * V) * U) * U
        = B * ((V + (1 + V) * U) * (1 + U))"
    by (simp add: algebra_simps)
  have "(V + (1 + V) * U) * (1 + U) \<le> 1 / 2 ^ 49" by (simp add: U_def V_def)
  then have "B * ((V + (1 + V) * U) * (1 + U)) \<le> B * (1 / 2 ^ 49)"
    using B0 by (rule mult_left_mono)
  with q c2 have "\<bar>fl64 (h - el)\<bar> \<le> B / 2 ^ 49" by simp
  then show "\<bar>fl64 (fl64 (fl64 (e - fl64 (e - fl64 (el + hv))) - hv) - el)\<bar> \<le> B / 2 ^ 49"
    by (simp add: h_def e'_def p_def m_def)
qed

subsection \<open>When the explicit correlations return a number\<close>

lemma f_haaland_value:
  assumes "0 < Rey" "0 \<le> epsilon" "0 < D" "epsilon / D / 3.7 + 6.9 / Rey < 1"
  shows "f_haaland Rey epsilon D
           = Inr (1 / (- 1.8 * log 10 ((epsilon / D / 3.7) powr 1.11 + 6.9 / Rey))\<^sup>2)"
    and "log 10 ((epsilon / D / 3.7) powr 1.11 + 6.9 / Rey) < 0"
proof -
  let ?x = "epsilon / D / 3.7"
  let ?t = "?x powr 1.11 + 6.9 / Rey"
  have x0: "0 \<le> ?x" using assms by simp
  have r0: "0 < 6.9 / Rey" using assms by simp
  have x1: "?x \<le> 1" using assms(4) r0 by linarith
  have px: "?x powr 1.11 \<le> ?x" using x0 x1 by (rule powr_le_self) simp
  have tpos: "0 < ?t" using r0 powr_ge_zero[of ?x "1.11"] by linarith
  have tlt: "?t < 1" using px assms(4) by linarith
  show lg: "log 10 ?t < 0" using tpos tlt by simp
  then have nz: "(- 1.8 * log 10 ?t)\<^sup>2 \<noteq> 0" by simp
  show "f_haaland Rey epsilon D = Inr (1 / (- 1.8 * log 10 ?t)\<^sup>2)"
    using assms(1,3) x0 tpos nz
    by (simp add: f_haaland_def py_div_def py_pow_def np_log10_def np_div_def Let_def)
qed

lemma f_haaland_ok:
  assumes "0 < Rey" "0 \<le> epsilon" "0 < D" "epsilon / D / 3.7 + 6.9 / Rey < 1"
  shows "\<exists>f. f_haaland Rey epsilon D = Inr f \<and> 0 < f"
proof -
  have "log 10 ((epsilon / D / 3.7) powr 1.11 + 6.9 / Rey) \<noteq> 0"
    using f_haaland_value(2)[OF assms] by simp
  then have "0 < 1 / (- 1.8 * log 10 ((epsilon / D / 3.7) powr 1.11 + 6.9 / Rey))\<^sup>2"
    by simp
  with f_haaland_value(1)[OF assms] show ?thesis by blast
qed

lemma f_swamee_jain_ok:
  assumes "1 \<le> Rey" "0 \<le> epsilon" "0 < D" "epsilon / (3.7 * D) + 5.74 / sqrt Rey < 1"
  shows "\<exists>f. f_swamee_jain Rey epsilon D = Inr f \<and> 0 < f"
proof -
  let ?x = "epsilon / (3.7 * D)"
  let ?t = "?x + 5.74 / (Rey powr 0.9)"
  have x0: "0 \<le> ?x" using assms by simp
  have "Rey powr (1/2) \<le> Rey powr 0.9" using assms(1) by (intro powr_mono) simp_all
  then have sq: "sqrt Rey \<le> Rey powr 0.9" using assms(1) by (simp add: powr_half_sqrt)
  have sp: "0 < sqrt Rey" using assms(1) by simp
  have "5.74 / (Rey powr 0.9) \<le> 5.74 / sqrt Rey"
    using sq sp by (intro divide_left_mono) simp_all
  then have tlt: "?t < 1" using assms(4) by linarith
  have "0 < 5.74 / (Rey powr 0.9)" using assms(1) by simp
  then have tpos: "0 < ?t" using x0 by linarith
  have lg: "log 10 ?t < 0" using tpos tlt by simp
  then have nz: "(log 10 ?t)\<^sup>2 \<noteq> 0" by simp
  have "f_swamee_jain Rey epsilon D = Inr (0.25 / (log 10 ?t)\<^sup>2)"
    using assms(1,3) tpos nz
    by (simp add: f_swamee_jain_def py_div_def np_log10_def np_div_def Let_def)
  moreover have "0 < 0.25 / (log 10 ?t)\<^sup>2" using nz by simp
  ultimately show ?thesis by blast
qed

subsection \<open>The residual and the seed\<close>

lemma ecuacion_value:
  assumes "0 < f" "0 < Rey" "0 \<le> epsilon" "0 < D"
  shows "0 < colebrook_arg Rey epsilon D f"
    and "ecuacion Rey epsilon D f
           = Inr (1 / sqrt f + 2 * log 10 (colebrook_arg Rey epsilon D f))"
proof -
  have a: "0 \<le> epsilon / D / 3.7" using assms by simp
  have b: "0 < 2.51 / (Rey * sqrt f)" using assms by simp
  from a b show pos: "0 < colebrook_arg Rey epsilon D f"
    unfolding colebrook_arg_def by linarith
  from assms pos show "ecuacion Rey epsilon D f
      = Inr (1 / sqrt f + 2 * log 10 (colebrook_arg Rey epsilon D f))"
    by (simp add: ecuacion_def np_sqrt_def np_div_def py_div_def np_log10_def
        colebrook_arg_def)
qed

text \<open>
  With a relative roughness of 37 or more the residual is at least 1 at every \<open>f\<close>: it
  has no zero, and no iterate of a root finder can meet a residual tolerance below 1.
\<close>

lemma ecuacion_no_root:
  assumes "0 < Rey" "0 < D" "37 * D \<le> epsilon"
  shows "\<exists>res. ecuacion Rey epsilon D f = Inr res \<and> 1 \<le> res"
proof (cases "f \<le> 0")
  case True
  then show ?thesis by (simp add: ecuacion_def)
next
  case False
  then have f: "0 < f" by simp
  have e0: "0 \<le> epsilon" using assms(2,3) by linarith
  have "37 \<le> epsilon / D" using assms(2,3) by (simp add: pos_le_divide_eq)
  then have a: "10 \<le> epsilon / D / 3.7" by simp
  have b: "0 < 2.51 / (Rey * sqrt f)" using assms(1) f by simp
  have "10 < colebrook_arg Rey epsilon D f"
    using a b unfolding colebrook_arg_def by linarith
  then have "1 < log 10 (colebrook_arg Rey epsilon D f)" by simp
  moreover have "0 < 1 / sqrt f" using f by simp
  ultimately have "1 \<le> 1 / sqrt f + 2 * log 10 (colebrook_arg Rey epsilon D f)"
    by linarith
  with ecuacion_value(2)[OF f assms(1) e0 assms(2)] show ?thesis by simp
qed

lemma f_haaland_rough:
  assumes "0 < Rey" "0 < D" "3.7 * D \<le> epsilon"
  shows "f_haaland Rey epsilon D
           = Inr (1 / (- 1.8 * log 10 ((epsilon / D / 3.7) powr 1.11 + 6.9 / Rey))\<^sup>2)"
proof -
  let ?x = "epsilon / D / 3.7"
  let ?t = "?x powr 1.11 + 6.9 / Rey"
  have x1: "1 \<le> ?x" using assms(2,3) by (simp add: pos_le_divide_eq)
  then have x0: "0 \<le> ?x" by linarith
  have "1 \<le> ?x powr 1.11" using x1 by (rule ge_one_powr_ge_zero) simp
  moreover have "0 < 6.9 / Rey" using assms(1) by simp
  ultimately have t1: "1 < ?t" by linarith
  then have "0 < log 10 ?t" by simp
  then have nz: "(- 1.8 * log 10 ?t)\<^sup>2 \<noteq> 0" by simp
  have tpos: "0 < ?t" using t1 by linarith
  show ?thesis
    using assms(1,2) x0 tpos nz
    by (simp add: f_haaland_def py_div_def py_pow_def np_log10_def np_div_def Let_def)
qed

lemma haaland_rough_100000:
  "f_haaland 100000 37 1
     = Inr (1 / (- 1.8 * log 10 ((37 / 1 / 3.7) powr 1.11 + 6.9 / 100000))\<^sup>2)"
  by (rule f_haaland_rough) simp_all

subsection \<open>What a result of the segment model holds\<close>

lemma calcular_tramo_Inr:
  assumes "calcular_tramo solver Q D L dz rho mu epsilon K n bajada = Inr r"
  shows "D \<noteq> 0 \<and> mu \<noteq> 0
    \<and> area r = area_seccion D
    \<and> velocidad_res r = Q / area_seccion D
    \<and> carga_cinetica_res r = carga_cinetica (velocidad_res r)
    \<and> reynolds_res r = rho * velocidad_res r * D / mu
    \<and> f_colebrook solver (reynolds_res r) epsilon D = Inr (f_colebrook_res r)
    \<and> f_haaland (reynolds_res r) epsilon D = Inr (f_haaland_res r)
    \<and> f_swamee_jain (reynolds_res r) epsilon D = Inr (f_swamee_jain_res r)
    \<and> longitud_estacion r = (if n > 0 then L / real_of_int n else L)
    \<and> perdidas_friccion_colebrook r
        = f_colebrook_res r * (longitud_estacion r / D) * (velocidad_res r)\<^sup>2 / (2 * g)
    \<and> perdidas_friccion_haaland r
        = f_haaland_res r * (longitud_estacion r / D) * (velocidad_res r)\<^sup>2 / (2 * g)
    \<and> perdidas_menores_res r = K * (velocidad_res r)\<^sup>2 / (2 * g)
    \<and> z_estacion r = (if n > 0 then dz / real_of_int n else dz)
    \<and> carga_estacion r
        = \<bar>z_estacion r\<bar> + perdidas_friccion_colebrook r + perdidas_menores_res r
    \<and> carga_total_res r = carga_estacion r * real_of_int n
    \<and> potencia_kw r = (if bajada then 0 else rho * g * Q * carga_estacion r / 1000)
    \<and> potencia_hp r = (if bajada then 0 else potencia_kw r / 0.7457)
    \<and> num_estaciones_res r = n \<and> es_bajada_res r = bajada"
  using assms
  unfolding calcular_tramo_def velocidad_def reynolds_def perdidas_darcy_def Let_def
  by (auto simp: bind_r_eq_Inr py_div_def perdidas_menores_def carga_total_def
      potencia_bomba_def kw_a_hp_def split: if_splits)

lemma calcular_tramo_ok:
  assumes "D \<noteq> 0" "mu \<noteq> 0"
    and "f_colebrook solver (rho * (Q / area_seccion D) * D / mu) epsilon D = Inr fc"
    and "f_haaland (rho * (Q / area_seccion D) * D / mu) epsilon D = Inr fh"
    and "f_swamee_jain (rho * (Q / area_seccion D) * D / mu) epsilon D = Inr fs"
  shows "\<exists>r. calcular_tramo solver Q D L dz rho mu epsilon K n bajada = Inr r"
  using assms
  by (simp add: calcular_tramo_def velocidad_def reynolds_def perdidas_darcy_def Let_def
      py_div_def)

subsection \<open>The default parameters\<close>

text \<open>
  \<open>calcular_sistema_completo\<close> has the defaults \<open>Q = 0.025\<close>, \<open>D = 0.1541\<close>,
  \<open>rho = 998\<close>, \<open>mu = 0.001\<close> and \<open>epsilon = 0.000046\<close>. The flow is turbulent there and
  every correlation returns a number.
\<close>

lemma reynolds_default:
  "10000 \<le> (998::real) * (0.025 / area_seccion 0.1541) * 0.1541 / 0.001"
proof -
  have "(998::real) * (0.025 / area_seccion 0.1541) * 0.1541 / 0.001
          = (249500000 / 1541) * (4 / pi)"
    by (simp add: area_seccion_def power2_eq_square)
  moreover have "(1::real) \<le> 4 / pi" using pi_less_4 pi_gt_zero by simp
  then have "(249500000 / 1541 :: real) * 1 \<le> (249500000 / 1541) * (4 / pi)"
    by (intro mult_left_mono) simp_all
  ultimately show ?thesis by simp
qed

lemma friction_default:
  defines "Rey \<equiv> (998::real) * (0.025 / area_seccion 0.1541) * 0.1541 / 0.001"
  shows "\<exists>fh fs. f_haaland Rey 0.000046 0.1541 = Inr fh
            \<and> f_colebrook fsolve_stalled Rey 0.000046 0.1541 = Inr fh
            \<and> f_swamee_jain Rey 0.000046 0.1541 = Inr fs \<and> 0 < fh \<and> 0 < fs"
proof -
  have R: "10000 \<le> Rey" unfolding Rey_def by (rule reynolds_default)
  then have Rpos: "0 < Rey" by simp
  have "6.9 / Rey \<le> 6.9 / 10000" using R by (intro divide_left_mono) simp_all
  then have h: "0.000046 / 0.1541 / 3.7 + 6.9 / Rey < 1" by simp
  have "sqrt 10000 \<le> sqrt Rey" using R by (simp only: real_sqrt_le_iff)
  moreover have "sqrt 10000 = 100" using real_sqrt_abs[of 100] by simp
  ultimately have s: "100 \<le> sqrt Rey" by simp
  have "5.74 / sqrt Rey \<le> 5.74 / 100" using s Rpos by (intro divide_left_mono) simp_all
  then have j: "0.000046 / (3.7 * 0.1541) + 5.74 / sqrt Rey < 1" by simp
  obtain fh where fh: "f_haaland Rey 0.000046 0.1541 = Inr fh" "0 < fh"
    using f_haaland_ok[of Rey "0.000046" "0.1541"] h Rpos by auto
  obtain fs where fs: "f_swamee_jain Rey 0.000046 0.1541 = Inr fs" "0 < fs"
    using f_swamee_jain_ok[of Rey "0.000046" "0.1541"] j R by auto
  have "f_colebrook fsolve_stalled Rey 0.000046 0.1541 = Inr fh"
    using Rpos fh by (simp add: f_colebrook_def fsolve_stalled_def)
  with fh fs show ?thesis by blast
qed

lemma calcular_tramo_default:
  "\<exists>r. calcular_tramo fsolve_stalled 0.025 0.1541 L dz 998 0.001 0.000046 K n bajada = Inr r"
  using friction_default by (auto intro!: calcular_tramo_ok)

subsection \<open>The system solver, segment by segment\<close>

lemma eco_fields [simp]:
  "area (eco d r) = area r"
  "velocidad_res (eco d r) = velocidad_res r"
  "carga_cinetica_res (eco d r) = carga_cinetica_res r"
  "reynolds_res (eco d r) = reynolds_res r"
  "f_colebrook_res (eco d r) = f_colebrook_res r"
  "longitud_estacion (eco d r) = longitud_estacion r"
  "perdidas_friccion_colebrook (eco d r) = perdidas_friccion_colebrook r"
  "perdidas_friccion_haaland (eco d r) = perdidas_friccion_haaland r"
  "perdidas_menores_res (eco d r) = perdidas_menores_res r"
  "z_estacion (eco d r) = z_estacion r"
  "carga_estacion (eco d r) = carga_estacion r"
  "carga_total_res (eco d r) = carga_total_res r"
  "potencia_kw (eco d r) = potencia_kw r"
  "num_estaciones_res (eco d r) = num_estaciones_res r"
  "es_bajada_res (eco d r) = es_bajada_res r"
  "altura_res (eco d r) = altura d"
  "distancia_res (eco d r) = distancia d"
  by (simp_all add: eco_def tramo_result.defs sistema_result.defs)

lemma list_all2_member:
  "list_all2 P xs ys \<Longrightarrow> y \<in> set ys \<Longrightarrow> \<exists>x \<in> set xs. P x y"
  by (induction rule: list_all2_induct) auto

lemma resolver_tramos_Inr:
  "resolver_tramos solver Q D rho mu epsilon defs = Inr res \<Longrightarrow>
     list_all2 (de_tramo solver Q D rho mu epsilon) defs res"
proof (induction defs arbitrary: res)
  case Nil
  then show ?case by simp
next
  case (Cons p defs)
  obtain i defn where p: "p = (i, defn)" by (cases p)
  from Cons.prems obtain r0 rs where
    r0: "calcular_tramo solver Q D (longitud_tuberia defn) (z defn) rho mu epsilon
              (K_total defn) (num_estaciones defn) (es_bajada defn) = Inr r0"
    and rs: "resolver_tramos solver Q D rho mu epsilon defs = Inr rs"
    and res: "res = (i, eco defn r0) # rs"
    unfolding p by (auto simp: bind_r_eq_Inr)
  from Cons.IH[OF rs] r0 show ?case unfolding res p by simp
qed

lemma resolver_lookup:
  assumes "list_all2 (de_tramo solver Q D rho mu epsilon) defs res"
    and "map_of res i = Some r"
  shows "\<exists>defn r0. map_of defs i = Some defn
     \<and> calcular_tramo solver Q D (longitud_tuberia defn) (z defn) rho mu epsilon
              (K_total defn) (num_estaciones defn) (es_bajada defn) = Inr r0
     \<and> r = eco defn r0"
  using assms
proof (induction defs res rule: list_all2_induct)
  case Nil
  then show ?case by simp
next
  case (Cons p ps q qs)
  then show ?case
    by (cases p; cases q) (auto split: if_splits)
qed

lemma resolver_tramos_default:
  "\<exists>res. resolver_tramos fsolve_stalled 0.025 0.1541 998 0.001 0.000046 defs = Inr res"
proof (induction defs)
  case Nil
  show ?case by simp
next
  case (Cons p defs)
  obtain i defn where p: "p = (i, defn)" by (cases p)
  obtain r0 where "calcular_tramo fsolve_stalled 0.025 0.1541 (longitud_tuberia defn) (z defn)
      998 0.001 0.000046 (K_total defn) (num_estaciones defn) (es_bajada defn) = Inr r0"
    using calcular_tramo_default by blast
  with Cons show ?case unfolding p by auto
qed

subsection \<open>The energy trace, step by step\<close>

lemma sub_paso_fields [simp]:
  "energia_actual (sub_paso hv x ds ze hf hm j s)
     = energia_actual s - (hf / 5 + (if j = 1 then hm else 0))"
  "egl_puntos (sub_paso hv x ds ze hf hm j s)
     = egl_puntos s @ [energia_actual s - (hf / 5 + (if j = 1 then hm else 0))]"
  "elev_acum (sub_paso hv x ds ze hf hm j s) = elev_acum s"
  "dist_acum (sub_paso hv x ds ze hf hm j s) = dist_acum s"
  by (simp_all add: sub_paso_def n_puntos_sub_def Let_def)

lemma fold_sub_paso:
  assumes "0 \<le> hf" "0 \<le> hm"
  shows "\<exists>es. egl_puntos (fold (sub_paso hv x ds ze hf hm) js s) = egl_puntos s @ es
           \<and> length es = length js
           \<and> sorted_wrt (\<ge>) (energia_actual s # es)
           \<and> energia_actual (fold (sub_paso hv x ds ze hf hm) js s) = last (energia_actual s # es)"
proof (induction js arbitrary: s)
  case Nil
  show ?case by simp
next
  case (Cons j js)
  let ?s1 = "sub_paso hv x ds ze hf hm j s"
  let ?e1 = "energia_actual s - (hf / 5 + (if j = 1 then hm else 0))"
  from Cons[of ?s1] obtain es where
    es: "egl_puntos (fold (sub_paso hv x ds ze hf hm) js ?s1) = egl_puntos ?s1 @ es"
      "length es = length js" "sorted_wrt (\<ge>) (energia_actual ?s1 # es)"
      "energia_actual (fold (sub_paso hv x ds ze hf hm) js ?s1) = last (energia_actual ?s1 # es)"
    by blast
  have le: "?e1 \<le> energia_actual s" using assms by simp
  have "sorted_wrt (\<ge>) (energia_actual s # ?e1 # es)"
    using es(3) le by auto
  with es show ?case
    by (intro exI[of _ "?e1 # es"]) simp
qed

lemma fold_sub_paso_acum [simp]:
  "elev_acum (fold (sub_paso hv x ds ze hf hm) js s) = elev_acum s"
  "dist_acum (fold (sub_paso hv x ds ze hf hm) js s) = dist_acum s"
  by (induction js arbitrary: s) simp_all

lemma upto_1_5: "[1..n_puntos_sub] = [1, 2, 3, 4, 5]"
  by (simp add: n_puntos_sub_def upto_rec1)

lemma tanque_fields [simp]:
  "energia_actual (tanque hv s)
     = fl64 (energia_actual s - fl64 (energia_actual s - fl64 (elev_acum s + hv)))"
  "elev_acum (tanque hv s) = elev_acum s"
  "dist_acum (tanque hv s) = dist_acum s"
  by (simp_all add: tanque_def Let_def)

lemma sin_tanque_fields [simp]:
  "energia_actual (sin_tanque hv s) = energia_actual s"
  "elev_acum (sin_tanque hv s) = elev_acum s"
  "dist_acum (sin_tanque hv s) = dist_acum s"
  by (simp_all add: sin_tanque_def)

lemma bomba_fields [simp]:
  "energia_actual (bomba H x s) = energia_actual s + H"
  "elev_acum (bomba H x s) = elev_acum s"
  "dist_acum (bomba H x s) = dist_acum s"
  "egl_puntos (bomba H x s) = egl_puntos s"
  by (simp_all add: bomba_def)

lemma recorrido_acum [simp]:
  "elev_acum (recorrido hv x ds ze hf hm s) = elev_acum s"
  "dist_acum (recorrido hv x ds ze hf hm s) = dist_acum s"
  by (simp_all add: recorrido_def)

lemma estacion_elev_acum [simp]:
  "elev_acum (estacion hv r defn dist_tramo z_est s) = elev_acum s + z_est"
  by (simp add: estacion_def Let_def)

lemma lookup_registry:
  "lookup obtener_definicion_tramos 5 = Inr tramo_5"
  "lookup obtener_definicion_tramos 6 = Inr tramo_6"
  "lookup obtener_definicion_tramos 7 = Inr tramo_7"
  by (simp_all add: lookup_def obtener_definicion_tramos_def)

lemma lookup_Inr: "lookup d k = Inr v \<longleftrightarrow> map_of d k = Some v"
  by (simp add: lookup_def split: option.splits)

lemma sistema_lookup:
  assumes "calcular_sistema_completo solver Q D rho mu epsilon = Inr res"
    and "lookup obtener_definicion_tramos i = Inr defn"
  shows "\<exists>r0. lookup res i = Inr (eco defn r0)
     \<and> calcular_tramo solver Q D (longitud_tuberia defn) (z defn) rho mu epsilon
              (K_total defn) (num_estaciones defn) (es_bajada defn) = Inr r0"
proof -
  from assms(1) have la:
    "list_all2 (de_tramo solver Q D rho mu epsilon) obtener_definicion_tramos res"
    unfolding calcular_sistema_completo_def by (rule resolver_tramos_Inr)
  have "map fst res = map fst obtener_definicion_tramos"
    using la by (induction rule: list_all2_induct) simp_all
  moreover from assms(2) have "i \<in> fst ` set obtener_definicion_tramos"
    by (auto simp: lookup_Inr dest: map_of_SomeD intro: rev_image_eqI)
  ultimately have "i \<in> fst ` set res" by (metis set_map)
  then obtain r where r: "map_of res i = Some r"
    by (metis domD dom_map_of_conv_image_fst)
  from resolver_lookup[OF la r] assms(2) r show ?thesis
    by (auto simp: lookup_Inr)
qed

section \<open>Non-convergence of the implicit solve\<close>

text \<open>
  Claim C1, as stated: when the root finder does not reach its residual tolerance,
  \<open>f_colebrook\<close> reports a failure and never returns an unverified value. At
  \<open>Re = 100000\<close>, \<open>epsilon = 37\<close> and \<open>D = 1\<close> the Haaland seed is a number and the
  residual is at least 1 at every \<open>f\<close>, so that no root finder can reach a tolerance
  there; and for every root finder the result of \<open>f_colebrook\<close> is the outcome of the
  finder with the status dropped: an iterate \<open>x\<close> with any status becomes the ordinary
  result \<open>x\<close>.
\<close>

theorem f_colebrook_silent_counterexample:
  "f_haaland 100000 37 1
     = Inr (1 / (- 1.8 * log 10 ((37 / 1 / 3.7) powr 1.11 + 6.9 / 100000))\<^sup>2)
   \<and> (\<forall>f. \<exists>res. ecuacion 100000 37 1 f = Inr res \<and> 1 \<le> res)
   \<and> (\<forall>solver.
        f_colebrook solver 100000 37 1
          = map_sum id fst
              (solver (ecuacion 100000 37 1)
                 (1 / (- 1.8 * log 10 ((37 / 1 / 3.7) powr 1.11 + 6.9 / 100000))\<^sup>2)))"
proof (intro conjI allI)
  show "f_haaland 100000 37 1
     = Inr (1 / (- 1.8 * log 10 ((37 / 1 / 3.7) powr 1.11 + 6.9 / 100000))\<^sup>2)"
    by (rule haaland_rough_100000)
next
  fix f :: real
  show "\<exists>res. ecuacion 100000 37 1 f = Inr res \<and> 1 \<le> res"
    by (rule ecuacion_no_root) simp_all
next
  fix solver :: fsolve
  let ?m = "solver (ecuacion 100000 37 1)
      (1 / (- 1.8 * log 10 ((37 / 1 / 3.7) powr 1.11 + 6.9 / 100000))\<^sup>2)"
  have "f_colebrook solver 100000 37 1 = bind_r ?m (\<lambda>sol. Inr (fst sol))"
    unfolding f_colebrook_def haaland_rough_100000 by simp
  also have "\<dots> = map_sum id fst ?m" by (cases ?m) simp_all
  finally show "f_colebrook solver 100000 37 1 = map_sum id fst ?m" .
qed

text \<open>
  Claim C1, amended. \<open>f_colebrook\<close> does not surface a solve that has not converged.
  For \<open>Re > 0\<close>, when the Haaland seed is a number and the root finder stops at an
  iterate \<open>x\<close> with a status \<open>ier\<close>, \<open>f_colebrook\<close> returns \<open>x\<close> as the friction factor
  whatever \<open>ier\<close> is, and when the root finder raises, so does \<open>f_colebrook\<close>. For
  \<open>Re > 0\<close>, \<open>D > 0\<close> and \<open>epsilon \<ge> 37 D\<close> the seed is a number and the residual is at
  least 1 at every \<open>f\<close>: there the value returned is never a root.
\<close>

theorem f_colebrook_ignores_status:
  "(0 < Rey \<and> f_haaland Rey epsilon D = Inr f0 \<longrightarrow>
      (solver (ecuacion Rey epsilon D) f0 = Inr (x, ier) \<longrightarrow>
         f_colebrook solver Rey epsilon D = Inr x)
      \<and> (solver (ecuacion Rey epsilon D) f0 = Inl err \<longrightarrow>
         f_colebrook solver Rey epsilon D = Inl err))
   \<and> (0 < Rey \<and> 0 < D \<and> 37 * D \<le> epsilon \<longrightarrow>
      (\<exists>seed. f_haaland Rey epsilon D = Inr seed)
      \<and> (\<forall>f. \<exists>res. ecuacion Rey epsilon D f = Inr res \<and> 1 \<le> res))"
proof (intro conjI impI allI)
  assume "0 < Rey \<and> f_haaland Rey epsilon D = Inr f0"
    and "solver (ecuacion Rey epsilon D) f0 = Inr (x, ier)"
  then show "f_colebrook solver Rey epsilon D = Inr x" by (simp add: f_colebrook_def)
next
  assume "0 < Rey \<and> f_haaland Rey epsilon D = Inr f0"
    and "solver (ecuacion Rey epsilon D) f0 = Inl err"
  then show "f_colebrook solver Rey epsilon D = Inl err" by (simp add: f_colebrook_def)
next
  assume h: "0 < Rey \<and> 0 < D \<and> 37 * D \<le> epsilon"
  then have "3.7 * D \<le> epsilon" by linarith
  with h show "\<exists>seed. f_haaland Rey epsilon D = Inr seed"
    using f_haaland_rough[of Rey D epsilon] by blast
next
  fix f
  assume h: "0 < Rey \<and> 0 < D \<and> 37 * D \<le> epsilon"
  then show "\<exists>res. ecuacion Rey epsilon D f = Inr res \<and> 1 \<le> res"
    using ecuacion_no_root[of Rey D epsilon f] by blast
qed

theorem f_colebrook_ignores_status_witness:
  "(0::real) < 100000 \<and> (0::real) < 1 \<and> (37::real) * 1 \<le> 37
   \<and> f_haaland 100000 37 1
       = Inr (1 / (- 1.8 * log 10 ((37 / 1 / 3.7) powr 1.11 + 6.9 / 100000))\<^sup>2)
   \<and> fsolve_seed_check (ecuacion 100000 37 1)
        (1 / (- 1.8 * log 10 ((37 / 1 / 3.7) powr 1.11 + 6.9 / 100000))\<^sup>2)
       = Inr (1 / (- 1.8 * log 10 ((37 / 1 / 3.7) powr 1.11 + 6.9 / 100000))\<^sup>2, 5)
   \<and> f_colebrook fsolve_seed_check 100000 37 1
       = Inr (1 / (- 1.8 * log 10 ((37 / 1 / 3.7) powr 1.11 + 6.9 / 100000))\<^sup>2)
   \<and> (\<exists>res. ecuacion 100000 37 1
               (1 / (- 1.8 * log 10 ((37 / 1 / 3.7) powr 1.11 + 6.9 / 100000))\<^sup>2) = Inr res
          \<and> 1 \<le> res)
   \<and> f_colebrook (\<lambda>residual x0. Inl SolverError) 100000 37 1 = Inl SolverError"
proof -
  let ?seed = "1 / (- 1.8 * log 10 ((37 / 1 / 3.7) powr 1.11 + 6.9 / 100000))\<^sup>2 :: real"
  have p: "(0::real) < 100000" "(0::real) < 1" "(37::real) * 1 \<le> 37" by simp_all
  obtain res where res: "ecuacion 100000 37 1 ?seed = Inr res" "1 \<le> res"
    using ecuacion_no_root[of 100000 1 37 ?seed] by auto
  have s: "fsolve_seed_check (ecuacion 100000 37 1) ?seed = Inr (?seed, 5)"
    using res by (simp add: fsolve_seed_check_def)
  note T = f_colebrook_ignores_status[where Rey = 100000 and epsilon = 37 and D = 1
      and ?f0.0 = ?seed and solver = fsolve_seed_check and x = ?seed and ier = 5]
  have c: "f_colebrook fsolve_seed_check 100000 37 1 = Inr ?seed"
    using T[THEN conjunct1] p(1) haaland_rough_100000 s by blast
  have n: "\<exists>res. ecuacion 100000 37 1 ?seed = Inr res \<and> 1 \<le> res"
    using T[THEN conjunct2] p by blast
  have r: "f_colebrook (\<lambda>residual x0. Inl SolverError) 100000 37 1 = Inl SolverError"
    using f_colebrook_ignores_status[where Rey = 100000 and epsilon = 37 and D = 1
        and ?f0.0 = ?seed and solver = "\<lambda>residual x0. Inl SolverError"
        and err = SolverError, THEN conjunct1]
      p(1) haaland_rough_100000 by blast
  from p haaland_rough_100000 s c n r show ?thesis by (intro conjI)
qed

section \<open>Invalid geometry\<close>

text \<open>
  Claim C2, as stated: a diameter \<open>D \<le> 0\<close>, a viscosity \<open>mu \<le> 0\<close> or a station count
  \<open>\<le> 0\<close> is rejected with an error. The code checks none of them. With \<open>D = -0.1541\<close>
  \<open>calcular_tramo\<close> returns a result whose area is \<open>pi 0.1541\<^sup>2 / 4\<close>, and with
  \<open>num_estaciones = 0\<close> it returns a result whose per-station length is the whole
  length 211.13.
\<close>

theorem invalid_geometry_counterexample:
  "map_sum id area
     (calcular_tramo fsolve_stalled 0.025 (- 0.1541) 211.13 100 998 0.001 0.000046 1.62 1 False)
     = Inr (pi * 0.1541\<^sup>2 / 4)
   \<and> map_sum id longitud_estacion
     (calcular_tramo fsolve_stalled 0.025 0.1541 211.13 100 998 0.001 0.000046 1.62 0 False)
     = Inr 211.13"
proof -
  have "(998::real) * (0.025 / area_seccion (- 0.1541)) * (- 0.1541) / 0.001 \<le> 0"
    by (simp add: area_seccion_def divide_nonpos_pos mult_nonneg_nonpos)
  then have "\<exists>r. calcular_tramo fsolve_stalled 0.025 (- 0.1541) 211.13 100 998 0.001 0.000046
        1.62 1 False = Inr r"
    by (intro calcular_tramo_ok[where fc = 0 and fh = 0 and fs = 0])
       (simp_all add: f_colebrook_def f_haaland_def f_swamee_jain_def)
  then obtain r1 where r1: "calcular_tramo fsolve_stalled 0.025 (- 0.1541) 211.13 100 998 0.001
        0.000046 1.62 1 False = Inr r1" by blast
  obtain r2 where r2:
    "calcular_tramo fsolve_stalled 0.025 0.1541 211.13 100 998 0.001 0.000046 1.62 0 False
       = Inr r2"
    using calcular_tramo_default by blast
  have "area r1 = pi * 0.1541\<^sup>2 / 4"
    using calcular_tramo_Inr[OF r1] by (simp add: area_seccion_def)
  moreover have "longitud_estacion r2 = 211.13"
    using calcular_tramo_Inr[OF r2] by simp
  ultimately show ?thesis using r1 r2 by simp
qed

text \<open>
  Claim C2, amended. The engine validates none of \<open>D\<close>, \<open>mu\<close> and \<open>num_estaciones\<close>.
  \<open>calcular_tramo\<close> raises Python's \<open>ZeroDivisionError\<close> when \<open>D = 0\<close> or \<open>mu = 0\<close>.
  When \<open>D\<close> and \<open>mu\<close> are not zero and the Reynolds number
  \<open>rho (Q / area) D / mu\<close> is zero or negative, as it is for \<open>D < 0\<close> with \<open>Q\<close>,
  \<open>rho\<close> and \<open>mu\<close> positive, it returns a result, with the friction factor 0 and the
  frictional loss 0. Every result it returns has the area \<open>pi D\<^sup>2 / 4\<close>, whatever the
  sign of \<open>D\<close>. A station count \<open>\<le> 0\<close> is not rejected: whether \<open>calcular_tramo\<close>
  returns a result does not depend on \<open>num_estaciones\<close>, and for \<open>num_estaciones \<le> 0\<close>
  the per-station length and elevation of the result are the undivided \<open>L\<close> and \<open>z\<close>
  and its total head is the per-station head times \<open>num_estaciones\<close>.
\<close>

theorem invalid_geometry:
  "(D = 0 \<or> mu = 0 \<longrightarrow>
      calcular_tramo solver Q D L dz rho mu epsilon K n bajada = Inl ZeroDivisionError)
   \<and> (D \<noteq> 0 \<and> mu \<noteq> 0 \<and> rho * (Q / area_seccion D) * D / mu \<le> 0 \<longrightarrow>
        (\<exists>r0. calcular_tramo solver Q D L dz rho mu epsilon K n bajada = Inr r0
           \<and> f_colebrook_res r0 = 0 \<and> perdidas_friccion_colebrook r0 = 0))
   \<and> (calcular_tramo solver Q D L dz rho mu epsilon K n bajada = Inr r \<longrightarrow>
        area r = pi * D\<^sup>2 / 4
        \<and> (n \<le> 0 \<longrightarrow> longitud_estacion r = L \<and> z_estacion r = dz
              \<and> carga_total_res r = carga_estacion r * real_of_int n)
        \<and> (\<exists>r'. calcular_tramo solver Q D L dz rho mu epsilon K n' bajada = Inr r'))"
proof (intro conjI impI)
  assume "D = 0 \<or> mu = 0"
  then show "calcular_tramo solver Q D L dz rho mu epsilon K n bajada = Inl ZeroDivisionError"
    by (auto simp: calcular_tramo_def velocidad_def reynolds_def py_div_def Let_def)
next
  assume h: "D \<noteq> 0 \<and> mu \<noteq> 0 \<and> rho * (Q / area_seccion D) * D / mu \<le> 0"
  then have f: "f_colebrook solver (rho * (Q / area_seccion D) * D / mu) epsilon D = Inr 0"
    "f_haaland (rho * (Q / area_seccion D) * D / mu) epsilon D = Inr 0"
    "f_swamee_jain (rho * (Q / area_seccion D) * D / mu) epsilon D = Inr 0"
    by (simp_all add: f_colebrook_def f_haaland_def f_swamee_jain_def)
  from h f obtain r0 where
    r0: "calcular_tramo solver Q D L dz rho mu epsilon K n bajada = Inr r0"
    using calcular_tramo_ok[of D mu solver rho Q epsilon 0 0 0 L dz K n bajada] by blast
  note c = calcular_tramo_Inr[OF r0]
  from c have v0: "velocidad_res r0 = Q / area_seccion D"
    and re0: "reynolds_res r0 = rho * velocidad_res r0 * D / mu"
    and fc0: "f_colebrook solver (reynolds_res r0) epsilon D = Inr (f_colebrook_res r0)"
    and pf0: "perdidas_friccion_colebrook r0
        = f_colebrook_res r0 * (longitud_estacion r0 / D) * (velocidad_res r0)\<^sup>2 / (2 * g)"
    by blast+
  from fc0 f(1) have z: "f_colebrook_res r0 = 0" unfolding re0 v0 by simp
  have "perdidas_friccion_colebrook r0 = 0" unfolding pf0 z by simp
  with r0 z show "\<exists>r0. calcular_tramo solver Q D L dz rho mu epsilon K n bajada = Inr r0
           \<and> f_colebrook_res r0 = 0 \<and> perdidas_friccion_colebrook r0 = 0"
    by blast
next
  assume r: "calcular_tramo solver Q D L dz rho mu epsilon K n bajada = Inr r"
  note c = calcular_tramo_Inr[OF r]
  from c show "area r = pi * D\<^sup>2 / 4" by (simp add: area_seccion_def)
  from c have v: "velocidad_res r = Q / area_seccion D"
    and re: "reynolds_res r = rho * velocidad_res r * D / mu"
    and fc: "f_colebrook solver (reynolds_res r) epsilon D = Inr (f_colebrook_res r)"
    and fh: "f_haaland (reynolds_res r) epsilon D = Inr (f_haaland_res r)"
    and fs: "f_swamee_jain (reynolds_res r) epsilon D = Inr (f_swamee_jain_res r)"
    and d: "D \<noteq> 0" and m: "mu \<noteq> 0"
    by blast+
  show "\<exists>r'. calcular_tramo solver Q D L dz rho mu epsilon K n' bajada = Inr r'"
    using calcular_tramo_ok[OF d m] fc fh fs unfolding re v by blast
  assume "n \<le> 0"
  with c show "longitud_estacion r = L" by simp
  from c \<open>n \<le> 0\<close> show "z_estacion r = dz" by simp
  from c show "carga_total_res r = carga_estacion r * real_of_int n" by simp
qed

theorem invalid_geometry_witness:
  "calcular_tramo fsolve_stalled 0.025 0 211.13 100 998 0.001 0.000046 1.62 1 False
     = Inl ZeroDivisionError
   \<and> calcular_tramo fsolve_stalled 0.025 0.1541 211.13 100 998 0 0.000046 1.62 1 False
     = Inl ZeroDivisionError
   \<and> (- 0.1541 :: real) \<noteq> 0 \<and> (0.001 :: real) \<noteq> 0
   \<and> (998::real) * (0.025 / area_seccion (- 0.1541)) * (- 0.1541) / 0.001 \<le> 0
   \<and> (\<exists>r0. calcular_tramo fsolve_stalled 0.025 (- 0.1541) 211.13 100 998 0.001 0.000046 1.62 1
               False = Inr r0
          \<and> f_colebrook_res r0 = 0 \<and> perdidas_friccion_colebrook r0 = 0)
   \<and> (\<exists>r. calcular_tramo fsolve_stalled 0.025 0.1541 211.13 100 998 0.001 0.000046 1.62 0 False
              = Inr r
          \<and> (0::int) \<le> 0 \<and> area r = pi * 0.1541\<^sup>2 / 4
          \<and> longitud_estacion r = 211.13 \<and> z_estacion r = 100
          \<and> carga_total_res r = carga_estacion r * real_of_int 0
          \<and> (\<exists>r'. calcular_tramo fsolve_stalled 0.025 0.1541 211.13 100 998 0.001 0.000046 1.62
                     1 False = Inr r'))"
proof -
  obtain r where r:
    "calcular_tramo fsolve_stalled 0.025 0.1541 211.13 100 998 0.001 0.000046 1.62 0 False
       = Inr r"
    using calcular_tramo_default by blast
  have a: "calcular_tramo fsolve_stalled 0.025 0 211.13 100 998 0.001 0.000046 1.62 1 False
     = Inl ZeroDivisionError"
    using invalid_geometry[of 0 "0.001" fsolve_stalled "0.025" "211.13" 100 998 "0.000046"
        "1.62" 1 False] by simp
  have b: "calcular_tramo fsolve_stalled 0.025 0.1541 211.13 100 998 0 0.000046 1.62 1 False
     = Inl ZeroDivisionError"
    using invalid_geometry[of "0.1541" 0 fsolve_stalled "0.025" "211.13" 100 998 "0.000046"
        "1.62" 1 False] by simp
  have n: "(- 0.1541 :: real) \<noteq> 0" "(0.001 :: real) \<noteq> 0" by simp_all
  have re: "(998::real) * (0.025 / area_seccion (- 0.1541)) * (- 0.1541) / 0.001 \<le> 0"
    by (simp add: area_seccion_def divide_nonpos_pos mult_nonneg_nonpos)
  have d: "\<exists>r0. calcular_tramo fsolve_stalled 0.025 (- 0.1541) 211.13 100 998 0.001 0.000046
        1.62 1 False = Inr r0
          \<and> f_colebrook_res r0 = 0 \<and> perdidas_friccion_colebrook r0 = 0"
    using invalid_geometry[where D = "- 0.1541" and mu = "0.001" and solver = fsolve_stalled
        and Q = "0.025" and L = "211.13" and dz = 100 and rho = 998 and epsilon = "0.000046"
        and K = "1.62" and n = 1 and bajada = False, THEN conjunct2, THEN conjunct1]
      n re by blast
  note T = invalid_geometry[where D = "0.1541" and mu = "0.001" and solver = fsolve_stalled
        and Q = "0.025" and L = "211.13" and dz = 100 and rho = 998 and epsilon = "0.000046"
        and K = "1.62" and n = 0 and bajada = False and r = r and n' = 1,
        THEN conjunct2, THEN conjunct2, rule_format, OF r]
  have z: "(0::int) \<le> 0" by simp
  have c1: "area r = pi * 0.1541\<^sup>2 / 4" using T by blast
  have c2: "longitud_estacion r = 211.13 \<and> z_estacion r = 100
      \<and> carga_total_res r = carga_estacion r * real_of_int 0"
    using T z by blast
  have c3: "\<exists>r'. calcular_tramo fsolve_stalled 0.025 0.1541 211.13 100 998 0.001 0.000046 1.62
                     1 False = Inr r'"
    using T by blast
  from a b n re d r z c1 c2 c3 show ?thesis by blast
qed

section \<open>Segment 6 with one and with two stations\<close>

text \<open>
  Claim C3, as stated: for segment 6, going from one station to two changes the
  per-station pump power that \<open>calcular_tramo\<close> returns. Segment 6 is descending, so the
  power is 0 with one station and 0 with two, here at the default parameters.
\<close>

theorem tramo_6_potencia_counterexample:
  "map_sum id potencia_kw
     (calcular_tramo fsolve_stalled 0.025 0.1541 (longitud_tuberia tramo_6) (z tramo_6) 998 0.001
        0.000046 (K_total tramo_6) 1 (es_bajada tramo_6)) = Inr 0
   \<and> map_sum id potencia_kw
     (calcular_tramo fsolve_stalled 0.025 0.1541 (longitud_tuberia tramo_6) (z tramo_6) 998 0.001
        0.000046 (K_total tramo_6) 2 (es_bajada tramo_6)) = Inr 0"
proof -
  obtain r1 where r1: "calcular_tramo fsolve_stalled 0.025 0.1541 (longitud_tuberia tramo_6)
       (z tramo_6) 998 0.001 0.000046 (K_total tramo_6) 1 (es_bajada tramo_6) = Inr r1"
    using calcular_tramo_default by blast
  obtain r2 where r2: "calcular_tramo fsolve_stalled 0.025 0.1541 (longitud_tuberia tramo_6)
       (z tramo_6) 998 0.001 0.000046 (K_total tramo_6) 2 (es_bajada tramo_6) = Inr r2"
    using calcular_tramo_default by blast
  have "potencia_kw r1 = 0" using calcular_tramo_Inr[OF r1] by (simp add: tramo_6_def)
  moreover have "potencia_kw r2 = 0" using calcular_tramo_Inr[OF r2] by (simp add: tramo_6_def)
  ultimately show ?thesis using r1 r2 by simp
qed

text \<open>
  Claim C3, amended. For segment 6 of the registry, with all other arguments fixed,
  going from one station to two halves the per-station pipe length (209.34 with one
  station) and the per-station elevation, which is 0 in both results since the \<open>z\<close> of
  segment 6 is 0; the per-station pump power is 0 in both, since segment 6 is
  descending.
\<close>

theorem tramo_6_estaciones:
  assumes "calcular_tramo solver Q D (longitud_tuberia tramo_6) (z tramo_6) rho mu epsilon
             (K_total tramo_6) 1 (es_bajada tramo_6) = Inr r1"
    and "calcular_tramo solver Q D (longitud_tuberia tramo_6) (z tramo_6) rho mu epsilon
             (K_total tramo_6) 2 (es_bajada tramo_6) = Inr r2"
  shows "longitud_estacion r1 = 209.34 \<and> longitud_estacion r2 = longitud_estacion r1 / 2
    \<and> z_estacion r1 = 0 \<and> z_estacion r2 = z_estacion r1 / 2
    \<and> potencia_kw r1 = 0 \<and> potencia_kw r2 = 0"
  using calcular_tramo_Inr[OF assms(1)] calcular_tramo_Inr[OF assms(2)]
  by (simp add: tramo_6_def)

theorem tramo_6_estaciones_witness:
  "\<exists>r1 r2.
     calcular_tramo fsolve_stalled 0.025 0.1541 (longitud_tuberia tramo_6) (z tramo_6) 998 0.001
       0.000046 (K_total tramo_6) 1 (es_bajada tramo_6) = Inr r1
   \<and> calcular_tramo fsolve_stalled 0.025 0.1541 (longitud_tuberia tramo_6) (z tramo_6) 998 0.001
       0.000046 (K_total tramo_6) 2 (es_bajada tramo_6) = Inr r2
   \<and> longitud_estacion r1 = 209.34 \<and> longitud_estacion r2 = longitud_estacion r1 / 2
   \<and> z_estacion r1 = 0 \<and> z_estacion r2 = z_estacion r1 / 2
   \<and> potencia_kw r1 = 0 \<and> potencia_kw r2 = 0"
proof -
  obtain r1 where r1: "calcular_tramo fsolve_stalled 0.025 0.1541 (longitud_tuberia tramo_6)
       (z tramo_6) 998 0.001 0.000046 (K_total tramo_6) 1 (es_bajada tramo_6) = Inr r1"
    using calcular_tramo_default by blast
  obtain r2 where r2: "calcular_tramo fsolve_stalled 0.025 0.1541 (longitud_tuberia tramo_6)
       (z tramo_6) 998 0.001 0.000046 (K_total tramo_6) 2 (es_bajada tramo_6) = Inr r2"
    using calcular_tramo_default by blast
  from tramo_6_estaciones[OF r1 r2] r1 r2 show ?thesis by blast
qed

section \<open>The no-flow sentinel\<close>

text \<open>
  Claim C4. Whenever the Reynolds number is zero or negative, the three friction-factor
  functions \<open>f_haaland\<close>, \<open>f_colebrook\<close> and \<open>f_swamee_jain\<close> return exactly 0, whatever
  the roughness and the diameter, and raise nothing. As a consequence, when the velocity
  and the Reynolds number that \<open>calcular_tramo\<close> computes exist and the Reynolds number
  is not positive, \<open>calcular_tramo\<close> returns a result and both per-station frictional
  losses in it are 0.
\<close>

theorem no_flow_sentinel:
  assumes "Rey \<le> 0"
  shows "f_haaland Rey epsilon D = Inr 0
    \<and> f_colebrook solver Rey epsilon D = Inr 0
    \<and> f_swamee_jain Rey epsilon D = Inr 0
    \<and> (velocidad Q (area_seccion D) = Inr v \<and> reynolds rho v D mu = Inr Rey \<longrightarrow>
         (\<exists>r. calcular_tramo solver Q D L dz rho mu epsilon K n bajada = Inr r
            \<and> perdidas_friccion_colebrook r = 0 \<and> perdidas_friccion_haaland r = 0))"
proof -
  have f: "f_haaland Rey epsilon D = Inr 0" "f_colebrook solver Rey epsilon D = Inr 0"
    "f_swamee_jain Rey epsilon D = Inr 0"
    using assms by (simp_all add: f_haaland_def f_colebrook_def f_swamee_jain_def)
  have "\<exists>r. calcular_tramo solver Q D L dz rho mu epsilon K n bajada = Inr r
            \<and> perdidas_friccion_colebrook r = 0 \<and> perdidas_friccion_haaland r = 0"
    if h: "velocidad Q (area_seccion D) = Inr v \<and> reynolds rho v D mu = Inr Rey"
  proof -
    from h have d: "D \<noteq> 0"
      by (auto simp: velocidad_def py_div_def split: if_splits)
    then show ?thesis
      using h f by (simp add: calcular_tramo_def perdidas_darcy_def py_div_def Let_def)
  qed
  with f show ?thesis by blast
qed

theorem no_flow_sentinel_witness:
  "(0::real) \<le> 0
    \<and> f_haaland 0 0.000046 0.1541 = Inr 0
    \<and> f_colebrook fsolve_stalled 0 0.000046 0.1541 = Inr 0
    \<and> f_swamee_jain 0 0.000046 0.1541 = Inr 0
    \<and> velocidad 0 (area_seccion 0.1541) = Inr 0
    \<and> reynolds 998 0 0.1541 0.001 = Inr 0
    \<and> (\<exists>r. calcular_tramo fsolve_stalled 0 0.1541 211.13 100 998 0.001 0.000046 1.62 1 False
               = Inr r
          \<and> perdidas_friccion_colebrook r = 0 \<and> perdidas_friccion_haaland r = 0)"
proof -
  have v: "velocidad 0 (area_seccion 0.1541) = Inr 0"
    by (simp add: velocidad_def py_div_def)
  have r: "reynolds 998 0 0.1541 0.001 = Inr 0"
    by (simp add: reynolds_def py_div_def)
  show ?thesis
    using no_flow_sentinel[of 0 "0.000046" "0.1541" fsolve_stalled 0 0 998 "0.001"
        "211.13" 100 "1.62" 1 False] v r
    by simp
qed

section \<open>The Colebrook residual\<close>

text \<open>
  Claim C5, as stated: for every proposed \<open>f \<le> 0\<close> the residual returns a large finite
  penalty. The penalty of the code is the number 1.0, and it is not large: at
  \<open>Re = 100000\<close>, \<open>epsilon = 0.000046\<close> and \<open>D = 0.1541\<close> the residual at the feasible
  \<open>f = 0.0001\<close> is above 94.
\<close>

theorem ecuacion_penalty_counterexample:
  "ecuacion 100000 0.000046 0.1541 (- 1) = Inr 1
   \<and> ecuacion 100000 0.000046 0.1541 0.0001
       = Inr (1 / sqrt 0.0001 + 2 * log 10 (colebrook_arg 100000 0.000046 0.1541 0.0001))
   \<and> 94 < 1 / sqrt 0.0001 + 2 * log 10 (colebrook_arg 100000 0.000046 0.1541 0.0001)"
proof -
  have s: "sqrt (0.0001::real) = 0.01"
    by (rule real_sqrt_unique) (simp_all add: power2_eq_square)
  have "(1 / 1000 :: real) < colebrook_arg 100000 0.000046 0.1541 0.0001"
    unfolding colebrook_arg_def s by simp
  then have "log 10 (1 / 1000) < log 10 (colebrook_arg 100000 0.000046 0.1541 0.0001)"
    by (subst log_less_cancel_iff) simp_all
  moreover have "log 10 (1 / 1000 :: real) = - 3"
    using log_pow_cancel[of 10 3] by (simp add: log_divide)
  ultimately have l: "- 3 < log 10 (colebrook_arg 100000 0.000046 0.1541 0.0001)" by simp
  have b: "94 < 1 / sqrt 0.0001 + 2 * log 10 (colebrook_arg 100000 0.000046 0.1541 0.0001)"
    unfolding s using l by simp
  have a: "ecuacion 100000 0.000046 0.1541 (- 1) = Inr 1" by (simp add: ecuacion_def)
  have c: "ecuacion 100000 0.000046 0.1541 0.0001
       = Inr (1 / sqrt 0.0001 + 2 * log 10 (colebrook_arg 100000 0.000046 0.1541 0.0001))"
    by (rule ecuacion_value) simp_all
  from a c b show ?thesis by (intro conjI)
qed

text \<open>
  Claim C5, amended. The residual \<open>ecuacion\<close> inside \<open>f_colebrook\<close> is safe against a
  solver that overshoots. For every proposed \<open>f \<le> 0\<close> it returns the finite constant
  1.0 and evaluates neither a square root nor a logarithm: the result is that number
  whatever \<open>Re\<close>, \<open>epsilon\<close> and \<open>D\<close> are, even where a division would fail. For every
  \<open>f > 0\<close> with \<open>Re > 0\<close>, \<open>epsilon \<ge> 0\<close> and \<open>D > 0\<close> the argument of \<open>log10\<close> is
  strictly positive and the residual is the number \<open>1/sqrt f + 2 log10 (argument)\<close>.
\<close>

theorem ecuacion_safe:
  "(f \<le> 0 \<longrightarrow> ecuacion Rey epsilon D f = Inr 1) \<and>
   (0 < f \<and> 0 < Rey \<and> 0 \<le> epsilon \<and> 0 < D \<longrightarrow>
      0 < colebrook_arg Rey epsilon D f \<and>
      ecuacion Rey epsilon D f
        = Inr (1 / sqrt f + 2 * log 10 (colebrook_arg Rey epsilon D f)))"
proof (intro conjI impI)
  assume "f \<le> 0"
  then show "ecuacion Rey epsilon D f = Inr 1" by (simp add: ecuacion_def)
next
  assume h: "0 < f \<and> 0 < Rey \<and> 0 \<le> epsilon \<and> 0 < D"
  then show "0 < colebrook_arg Rey epsilon D f" by (simp add: ecuacion_value(1))
  from h show "ecuacion Rey epsilon D f
      = Inr (1 / sqrt f + 2 * log 10 (colebrook_arg Rey epsilon D f))"
    by (simp add: ecuacion_value(2))
qed

theorem ecuacion_safe_witness:
  "(- 1::real) \<le> 0 \<and> ecuacion 100000 0.000046 0 (- 1) = Inr 1
   \<and> (0::real) < 4 \<and> (0::real) < 100000 \<and> (0::real) \<le> 0.000046 \<and> (0::real) < 0.1541
   \<and> 0 < colebrook_arg 100000 0.000046 0.1541 4
   \<and> ecuacion 100000 0.000046 0.1541 4
       = Inr (1 / sqrt 4 + 2 * log 10 (colebrook_arg 100000 0.000046 0.1541 4))"
  using ecuacion_safe[of "- 1" 100000 "0.000046" 0]
    ecuacion_safe[of 4 100000 "0.000046" "0.1541"]
  by simp

section \<open>Head assembly\<close>

text \<open>
  Claim C6. For a station count \<open>n \<ge> 1\<close>, a result of \<open>calcular_tramo\<close> has the
  per-station total head \<open>|z|/n + f (L/n)/D v\<^sup>2/(2g) + K v\<^sup>2/(2g)\<close>, where \<open>f\<close> is the value
  of \<open>f_colebrook\<close> and \<open>v = Q / area\<close>; the minor loss \<open>K v\<^sup>2/(2g)\<close> is not divided by
  \<open>n\<close>. The segment total head is the per-station head times \<open>n\<close>, so that friction
  enters it with the whole length \<open>L\<close> and the minor loss \<open>n\<close> times.
\<close>

theorem head_assembly:
  assumes "1 \<le> n"
    and "calcular_tramo solver Q D L dz rho mu epsilon K n bajada = Inr r"
  shows "f_colebrook solver (reynolds_res r) epsilon D = Inr (f_colebrook_res r)
    \<and> velocidad_res r = Q / area_seccion D
    \<and> carga_estacion r
        = \<bar>dz\<bar> / real_of_int n
          + f_colebrook_res r * ((L / real_of_int n) / D) * (velocidad_res r)\<^sup>2 / (2 * g)
          + K * (velocidad_res r)\<^sup>2 / (2 * g)
    \<and> carga_total_res r = carga_estacion r * real_of_int n
    \<and> carga_total_res r
        = \<bar>dz\<bar> + f_colebrook_res r * (L / D) * (velocidad_res r)\<^sup>2 / (2 * g)
          + real_of_int n * (K * (velocidad_res r)\<^sup>2 / (2 * g))"
proof -
  note c = calcular_tramo_Inr[OF assms(2)]
  have n0: "0 < real_of_int n" using assms(1) by simp
  have n1: "n > 0" using assms(1) by simp
  have H: "carga_estacion r
        = \<bar>dz\<bar> / real_of_int n
          + f_colebrook_res r * ((L / real_of_int n) / D) * (velocidad_res r)\<^sup>2 / (2 * g)
          + K * (velocidad_res r)\<^sup>2 / (2 * g)"
    using c n1 n0 by simp
  have T: "carga_total_res r = carga_estacion r * real_of_int n" using c by simp
  have "carga_estacion r * real_of_int n
        = \<bar>dz\<bar> + f_colebrook_res r * (L / D) * (velocidad_res r)\<^sup>2 / (2 * g)
          + real_of_int n * (K * (velocidad_res r)\<^sup>2 / (2 * g))"
    unfolding H using n0 by (simp add: field_simps)
  then have T2: "carga_total_res r
        = \<bar>dz\<bar> + f_colebrook_res r * (L / D) * (velocidad_res r)\<^sup>2 / (2 * g)
          + real_of_int n * (K * (velocidad_res r)\<^sup>2 / (2 * g))"
    using T by simp
  have fc: "f_colebrook solver (reynolds_res r) epsilon D = Inr (f_colebrook_res r)"
    using c by blast
  have v: "velocidad_res r = Q / area_seccion D" using c by blast
  show ?thesis using fc v H T T2 by blast
qed

theorem head_assembly_witness:
  "\<exists>r. (1::int) \<le> 2
     \<and> calcular_tramo fsolve_stalled 0.025 0.1541 235.42 200 998 0.001 0.000046 3.87 2 False
         = Inr r
     \<and> carga_estacion r
        = \<bar>200\<bar> / real_of_int 2
          + f_colebrook_res r * ((235.42 / real_of_int 2) / 0.1541) * (velocidad_res r)\<^sup>2
              / (2 * g)
          + 3.87 * (velocidad_res r)\<^sup>2 / (2 * g)
     \<and> carga_total_res r = carga_estacion r * real_of_int 2"
proof -
  obtain r where r:
    "calcular_tramo fsolve_stalled 0.025 0.1541 235.42 200 998 0.001 0.000046 3.87 2 False
       = Inr r"
    using calcular_tramo_default by blast
  have n: "(1::int) \<le> 2" by simp
  from head_assembly[OF n r] r show ?thesis by (intro exI[of _ r]) simp
qed

section \<open>The pressure-break tank\<close>

text \<open>
  The closed examples of this section are at the state in which the default parameters
  reach the tank of segment 7: the energy is the double 98.69563735663246, which is
  \<open>434068003537523 / 2 ^ 42\<close>, the elevation is 0, and the kinetic head is the double
  0.09157790344215434, which is \<open>6598883389079321 / 2 ^ 56\<close>.
\<close>

lemma fl64_egl_meta:
  "fl64 (0 + 6598883389079321 / 2 ^ 56) = 6598883389079321 / 2 ^ 56"
proof -
  have "fl64 (0 + 6598883389079321 / 2 ^ 56)
      = of_int (round_even ((0 + 6598883389079321 / 2 ^ 56) / 2 powr of_int (- 4 - 52)))
          * 2 powr of_int (- 4 - 52)"
    by (rule fl64_binade) (simp_all add: powr_neg_numeral)
  also have "\<dots> = 6598883389079321 / 2 ^ 56"
    by (simp add: round_even_def Let_def powr_neg_numeral)
  finally show ?thesis .
qed

lemma fl64_perdida:
  "fl64 (434068003537523 / 2 ^ 42 - 6598883389079321 / 2 ^ 56) = 433665239658795 / 2 ^ 42"
proof -
  have "fl64 (434068003537523 / 2 ^ 42 - 6598883389079321 / 2 ^ 56)
      = of_int (round_even ((434068003537523 / 2 ^ 42 - 6598883389079321 / 2 ^ 56)
                  / 2 powr of_int (6 - 52)))
          * 2 powr of_int (6 - 52)"
    by (rule fl64_binade) (simp_all add: powr_neg_numeral)
  also have "\<dots> = 433665239658795 / 2 ^ 42"
    by (simp add: round_even_def Let_def powr_neg_numeral)
  finally show ?thesis .
qed

lemma fl64_energia:
  "fl64 (434068003537523 / 2 ^ 42 - 433665239658795 / 2 ^ 42) = 50345484841 / 2 ^ 39"
proof -
  have "fl64 (434068003537523 / 2 ^ 42 - 433665239658795 / 2 ^ 42)
      = of_int (round_even ((434068003537523 / 2 ^ 42 - 433665239658795 / 2 ^ 42)
                  / 2 powr of_int (- 4 - 52)))
          * 2 powr of_int (- 4 - 52)"
    by (rule fl64_binade) (simp_all add: powr_neg_numeral)
  also have "\<dots> = 50345484841 / 2 ^ 39"
    by (simp add: round_even_def Let_def powr_neg_numeral)
  finally show ?thesis .
qed

lemma fl64_umbral: "fl64 0.01 = 5764607523034235 / 2 ^ 59"
proof -
  have "fl64 0.01
      = of_int (round_even (0.01 / 2 powr of_int (- 7 - 52))) * 2 powr of_int (- 7 - 52)"
    by (rule fl64_binade) (simp_all add: powr_neg_numeral)
  also have "\<dots> = 5764607523034235 / 2 ^ 59"
    by (simp add: round_even_def Let_def powr_neg_numeral)
  finally show ?thesis .
qed

lemma fl64_hgl:
  "fl64 (50345484841 / 2 ^ 39 - 6598883389079321 / 2 ^ 56) = 231 / 2 ^ 56"
proof -
  have "fl64 (50345484841 / 2 ^ 39 - 6598883389079321 / 2 ^ 56)
      = of_int (round_even ((50345484841 / 2 ^ 39 - 6598883389079321 / 2 ^ 56)
                  / 2 powr of_int (- 49 - 52)))
          * 2 powr of_int (- 49 - 52)"
    by (rule fl64_binade) (simp_all add: powr_neg_numeral)
  also have "\<dots> = 231 / 2 ^ 56"
    by (simp add: round_even_def Let_def powr_neg_numeral)
  finally show ?thesis .
qed

lemma fl64_presion: "fl64 (231 / 2 ^ 56 - 0) = 231 / 2 ^ 56"
proof -
  have "fl64 (231 / 2 ^ 56 - 0)
      = of_int (round_even ((231 / 2 ^ 56 - 0) / 2 powr of_int (- 49 - 52)))
          * 2 powr of_int (- 49 - 52)"
    by (rule fl64_binade) (simp_all add: powr_neg_numeral)
  also have "\<dots> = 231 / 2 ^ 56"
    by (simp add: round_even_def Let_def powr_neg_numeral)
  finally show ?thesis .
qed

lemma tanque_presion:
  assumes "\<bar>fl64 (energia_actual s - fl64 (elev_acum s + hv))\<bar> > fl64 0.01"
  shows "presion_puntos (tanque hv s)
     = presion_puntos s @ [fl64 (fl64 (energia_actual (tanque hv s) - hv) - elev_acum s)]"
  using assms by (simp add: tanque_def Let_def)

text \<open>
  Claim C7, as stated: right after the tank event the gauge pressure, the energy minus
  the kinetic head minus the elevation, is exactly zero, because the trace sets the
  energy to \<open>elevation + kinetic head\<close>. The code does not assign that value: it
  subtracts from the energy the rounded difference \<open>perdida\<close>. At the tank of segment 7
  with the default parameters the energy after the tank is 0.09157790344215755, not the
  kinetic head 0.09157790344215434, and the pressure appended to the profile is
  \<open>231 / 2 ^ 56\<close>, about \<open>3.2e-15\<close>.
\<close>

theorem tank_pressure_counterexample:
  "energia_actual
      (tanque (6598883389079321 / 2 ^ 56)
         (traza_inicial\<lparr> energia_actual := 434068003537523 / 2 ^ 42 \<rparr>))
     = 50345484841 / 2 ^ 39
   \<and> (50345484841 / 2 ^ 39 :: real) - 6598883389079321 / 2 ^ 56 - 0 = 231 / 2 ^ 56
   \<and> presion_puntos
      (tanque (6598883389079321 / 2 ^ 56)
         (traza_inicial\<lparr> energia_actual := 434068003537523 / 2 ^ 42 \<rparr>))
     = [0, 231 / 2 ^ 56]"
proof -
  let ?E = "434068003537523 / 2 ^ 42 :: real"
  let ?HV = "6598883389079321 / 2 ^ 56 :: real"
  let ?S = "traza_inicial\<lparr> energia_actual := ?E \<rparr>"
  have st: "energia_actual ?S = ?E" "elev_acum ?S = 0" "presion_puntos ?S = [0]"
    by (simp_all add: traza_inicial_def)
  have u: "\<bar>fl64 (energia_actual ?S - fl64 (elev_acum ?S + ?HV))\<bar> > fl64 0.01"
    unfolding st fl64_egl_meta fl64_perdida fl64_umbral by simp
  have a: "energia_actual (tanque ?HV ?S) = 50345484841 / 2 ^ 39"
    unfolding tanque_fields st fl64_egl_meta fl64_perdida fl64_energia ..
  have b: "(50345484841 / 2 ^ 39 :: real) - 6598883389079321 / 2 ^ 56 - 0 = 231 / 2 ^ 56"
    by simp
  have "presion_puntos (tanque ?HV ?S)
      = presion_puntos ?S @ [fl64 (fl64 (energia_actual (tanque ?HV ?S) - ?HV) - elev_acum ?S)]"
    using u by (rule tanque_presion)
  also have "\<dots> = [0, 231 / 2 ^ 56]"
    unfolding a st fl64_hgl fl64_presion by simp
  finally have c: "presion_puntos (tanque ?HV ?S) = [0, 231 / 2 ^ 56]" .
  from a b c show ?thesis by (intro conjI)
qed

text \<open>
  Claim C7, amended. Right after the tank event the gauge pressure is zero up to the
  rounding of double arithmetic, not exactly zero. When the energy before the tank, the
  elevation and the kinetic head are at most \<open>B\<close> in absolute value, the energy after
  the tank differs from \<open>elevation + kinetic head\<close> by at most \<open>B / 2 ^ 50\<close>. The point
  that the tank appends to the profile, when the dissipated head exceeds 0.01, carries
  that energy and a pressure derived from it, the energy minus the kinetic head minus
  the elevation, of at most \<open>B / 2 ^ 49\<close> in absolute value. Every station of a
  descending segment whose \<open>tanque_rompe_presion\<close> is not set to false ends with this
  tank event, and no descending segment of the registry sets it.
\<close>

theorem tank_idempotence:
  assumes "\<bar>energia_actual s\<bar> \<le> B" "\<bar>elev_acum s\<bar> \<le> B" "\<bar>hv\<bar> \<le> B"
  shows "\<bar>energia_actual (tanque hv s) - hv - elev_acum (tanque hv s)\<bar> \<le> B / 2 ^ 50
   \<and> (\<bar>fl64 (energia_actual s - fl64 (elev_acum s + hv))\<bar> > fl64 0.01 \<longrightarrow>
        egl_puntos (tanque hv s) = egl_puntos s @ [energia_actual (tanque hv s)]
        \<and> presion_puntos (tanque hv s)
            = presion_puntos s
              @ [fl64 (fl64 (energia_actual (tanque hv s) - hv) - elev_acum (tanque hv s))]
        \<and> \<bar>fl64 (fl64 (energia_actual (tanque hv s) - hv) - elev_acum (tanque hv s))\<bar>
            \<le> B / 2 ^ 49)
   \<and> (es_bajada_res r \<and> tanque_rompe_presion defn \<noteq> Some False \<longrightarrow>
        estacion hv r defn dist_tramo z_est s0
          = tanque hv
              ((recorrido hv (dist_acum s0) (dist_tramo / real_of_int (num_estaciones_res r))
                  z_est (perdidas_friccion_colebrook r) (perdidas_menores_res r) s0)
               \<lparr> elev_acum := elev_acum s0 + z_est,
                 dist_acum := dist_acum s0 + dist_tramo / real_of_int (num_estaciones_res r) \<rparr>))
   \<and> (\<forall>p \<in> set obtener_definicion_tramos.
        es_bajada (snd p) \<longrightarrow> tanque_rompe_presion (snd p) = None)"
proof (intro conjI impI)
  have eq: "energia_actual (tanque hv s) - hv - elev_acum (tanque hv s)
      = fl64 (energia_actual s - fl64 (energia_actual s - fl64 (elev_acum s + hv)))
          - (elev_acum s + hv)"
    by simp
  show "\<bar>energia_actual (tanque hv s) - hv - elev_acum (tanque hv s)\<bar> \<le> B / 2 ^ 50"
    unfolding eq by (rule tanque_reset_err(1)[OF assms])
next
  assume h: "\<bar>fl64 (energia_actual s - fl64 (elev_acum s + hv))\<bar> > fl64 0.01"
  then show "egl_puntos (tanque hv s) = egl_puntos s @ [energia_actual (tanque hv s)]"
    by (simp add: tanque_def Let_def)
  from h show "presion_puntos (tanque hv s)
            = presion_puntos s
              @ [fl64 (fl64 (energia_actual (tanque hv s) - hv) - elev_acum (tanque hv s))]"
    by (simp add: tanque_presion)
  show "\<bar>fl64 (fl64 (energia_actual (tanque hv s) - hv) - elev_acum (tanque hv s))\<bar>
            \<le> B / 2 ^ 49"
    using tanque_reset_err(2)[OF assms] by simp
next
  assume "es_bajada_res r \<and> tanque_rompe_presion defn \<noteq> Some False"
  then show "estacion hv r defn dist_tramo z_est s0
          = tanque hv
              ((recorrido hv (dist_acum s0) (dist_tramo / real_of_int (num_estaciones_res r))
                  z_est (perdidas_friccion_colebrook r) (perdidas_menores_res r) s0)
               \<lparr> elev_acum := elev_acum s0 + z_est,
                 dist_acum := dist_acum s0 + dist_tramo / real_of_int (num_estaciones_res r) \<rparr>)"
    by (cases "tanque_rompe_presion defn") (auto simp: estacion_def Let_def)
next
  show "\<forall>p \<in> set obtener_definicion_tramos.
        es_bajada (snd p) \<longrightarrow> tanque_rompe_presion (snd p) = None"
    by (simp add: obtener_definicion_tramos_def tramo_1_def tramo_2_def tramo_3_def tramo_4_def
        tramo_5_def tramo_6_def tramo_7_def tramo_8_def)
qed

theorem tank_idempotence_witness:
  "\<exists>r. \<bar>energia_actual (traza_inicial\<lparr> energia_actual := 434068003537523 / 2 ^ 42 \<rparr>)\<bar> \<le> 100
     \<and> \<bar>elev_acum (traza_inicial\<lparr> energia_actual := 434068003537523 / 2 ^ 42 \<rparr>)\<bar> \<le> 100
     \<and> \<bar>6598883389079321 / 2 ^ 56 :: real\<bar> \<le> 100
     \<and> \<bar>energia_actual
           (tanque (6598883389079321 / 2 ^ 56)
              (traza_inicial\<lparr> energia_actual := 434068003537523 / 2 ^ 42 \<rparr>))
          - 6598883389079321 / 2 ^ 56
          - elev_acum
              (tanque (6598883389079321 / 2 ^ 56)
                 (traza_inicial\<lparr> energia_actual := 434068003537523 / 2 ^ 42 \<rparr>))\<bar>
         \<le> 100 / 2 ^ 50
     \<and> \<bar>fl64 (energia_actual (traza_inicial\<lparr> energia_actual := 434068003537523 / 2 ^ 42 \<rparr>)
               - fl64 (elev_acum (traza_inicial\<lparr> energia_actual := 434068003537523 / 2 ^ 42 \<rparr>)
                        + 6598883389079321 / 2 ^ 56))\<bar> > fl64 0.01
     \<and> \<bar>fl64 (fl64 (energia_actual
                      (tanque (6598883389079321 / 2 ^ 56)
                         (traza_inicial\<lparr> energia_actual := 434068003537523 / 2 ^ 42 \<rparr>))
                    - 6598883389079321 / 2 ^ 56)
               - elev_acum
                   (tanque (6598883389079321 / 2 ^ 56)
                      (traza_inicial\<lparr> energia_actual := 434068003537523 / 2 ^ 42 \<rparr>)))\<bar>
         \<le> 100 / 2 ^ 49
     \<and> es_bajada_res r \<and> tanque_rompe_presion tramo_7 \<noteq> Some False
     \<and> estacion (6598883389079321 / 2 ^ 56) r tramo_7 57.60 (- 100) traza_inicial
         = tanque (6598883389079321 / 2 ^ 56)
             ((recorrido (6598883389079321 / 2 ^ 56) (dist_acum traza_inicial)
                 (57.60 / real_of_int (num_estaciones_res r))
                 (- 100) (perdidas_friccion_colebrook r) (perdidas_menores_res r) traza_inicial)
              \<lparr> elev_acum := elev_acum traza_inicial + (- 100),
                dist_acum := dist_acum traza_inicial
                  + 57.60 / real_of_int (num_estaciones_res r) \<rparr>)
     \<and> (7::int, tramo_7) \<in> set obtener_definicion_tramos \<and> es_bajada (snd (7::int, tramo_7))
     \<and> tanque_rompe_presion (snd (7::int, tramo_7)) = None"
proof -
  let ?E = "434068003537523 / 2 ^ 42 :: real"
  let ?HV = "6598883389079321 / 2 ^ 56 :: real"
  let ?S = "traza_inicial\<lparr> energia_actual := ?E \<rparr>"
  obtain r0 where r0: "calcular_tramo fsolve_stalled 0.025 0.1541 (longitud_tuberia tramo_7)
       (z tramo_7) 998 0.001 0.000046 (K_total tramo_7) 1 (es_bajada tramo_7) = Inr r0"
    using calcular_tramo_default by blast
  have b: "es_bajada_res (eco tramo_7 r0)"
    using calcular_tramo_Inr[OF r0] by (simp add: tramo_7_def)
  have t: "tanque_rompe_presion tramo_7 \<noteq> Some False" by (simp add: tramo_7_def)
  have st: "energia_actual ?S = ?E" "elev_acum ?S = 0"
    by (simp_all add: traza_inicial_def)
  have h1: "\<bar>energia_actual ?S\<bar> \<le> 100" unfolding st by simp
  have h2: "\<bar>elev_acum ?S\<bar> \<le> 100" unfolding st by simp
  have h3: "\<bar>?HV\<bar> \<le> 100" by simp
  have u: "\<bar>fl64 (energia_actual ?S - fl64 (elev_acum ?S + ?HV))\<bar> > fl64 0.01"
    unfolding st fl64_egl_meta fl64_perdida fl64_umbral by simp
  have m: "(7::int, tramo_7) \<in> set obtener_definicion_tramos"
    by (simp add: obtener_definicion_tramos_def)
  have e: "es_bajada (snd (7::int, tramo_7))" by (simp add: tramo_7_def)
  note T = tank_idempotence[OF h1 h2 h3, where r = "eco tramo_7 r0" and defn = tramo_7
      and dist_tramo = "57.60" and z_est = "- 100" and ?s0.0 = traza_inicial]
  note T1 = T[THEN conjunct1]
  note T2 = T[THEN conjunct2, THEN conjunct1, rule_format, OF u, THEN conjunct2, THEN conjunct2]
  note T3 = T[THEN conjunct2, THEN conjunct2, THEN conjunct1, rule_format, OF conjI[OF b t]]
  note T4 = T[THEN conjunct2, THEN conjunct2, THEN conjunct2, rule_format, OF m, rule_format, OF e]
  from h1 h2 h3 T1 u T2 b t T3 m e T4
  show ?thesis by (intro exI[of _ "eco tramo_7 r0"] conjI)
qed

section \<open>Flow continuity\<close>

text \<open>
  Claim C8. For fixed \<open>Q\<close>, \<open>D\<close>, \<open>rho\<close>, \<open>mu\<close> and \<open>epsilon\<close>, the results that
  \<open>calcular_sistema_completo\<close> returns are those of the segments 1 to 8, in that order,
  and any two of them carry the same velocity, the same area, the same kinetic head and
  the same Reynolds number; the velocity is \<open>Q / area_seccion D\<close> in each.
\<close>

theorem flow_continuity:
  assumes "calcular_sistema_completo solver Q D rho mu epsilon = Inr res"
  shows "map fst res = [1, 2, 3, 4, 5, 6, 7, 8]
    \<and> (\<forall>p \<in> set res. \<forall>q \<in> set res.
          velocidad_res (snd p) = velocidad_res (snd q)
        \<and> area (snd p) = area (snd q)
        \<and> carga_cinetica_res (snd p) = carga_cinetica_res (snd q)
        \<and> reynolds_res (snd p) = reynolds_res (snd q))
    \<and> (\<forall>p \<in> set res. velocidad_res (snd p) = Q / area_seccion D)"
proof -
  from assms have la: "list_all2 (de_tramo solver Q D rho mu epsilon) obtener_definicion_tramos res"
    unfolding calcular_sistema_completo_def by (rule resolver_tramos_Inr)
  have "map fst res = map fst obtener_definicion_tramos"
    using la by (induction rule: list_all2_induct) simp_all
  then have keys: "map fst res = [1, 2, 3, 4, 5, 6, 7, 8]"
    by (simp add: obtener_definicion_tramos_def)
  have each: "velocidad_res (snd p) = Q / area_seccion D \<and> area (snd p) = area_seccion D
      \<and> carga_cinetica_res (snd p) = carga_cinetica (Q / area_seccion D)
      \<and> reynolds_res (snd p) = rho * (Q / area_seccion D) * D / mu" if "p \<in> set res" for p
  proof -
    from la that obtain d where "de_tramo solver Q D rho mu epsilon d p"
      by (blast dest: list_all2_member)
    then obtain r0 where r0: "calcular_tramo solver Q D (longitud_tuberia (snd d)) (z (snd d))
         rho mu epsilon (K_total (snd d)) (num_estaciones (snd d)) (es_bajada (snd d)) = Inr r0"
      and e: "snd p = eco (snd d) r0"
      by blast
    from calcular_tramo_Inr[OF r0] show ?thesis unfolding e by simp
  qed
  have pair: "\<forall>p \<in> set res. \<forall>q \<in> set res.
          velocidad_res (snd p) = velocidad_res (snd q)
        \<and> area (snd p) = area (snd q)
        \<and> carga_cinetica_res (snd p) = carga_cinetica_res (snd q)
        \<and> reynolds_res (snd p) = reynolds_res (snd q)"
    using each by simp
  have one: "\<forall>p \<in> set res. velocidad_res (snd p) = Q / area_seccion D"
    using each by simp
  from keys pair one show ?thesis by (intro conjI)
qed

theorem flow_continuity_witness:
  "\<exists>res. calcular_sistema_completo fsolve_stalled 0.025 0.1541 998 0.001 0.000046 = Inr res
     \<and> map fst res = [1, 2, 3, 4, 5, 6, 7, 8]
     \<and> (\<forall>p \<in> set res. \<forall>q \<in> set res. velocidad_res (snd p) = velocidad_res (snd q))
     \<and> (\<forall>p \<in> set res. velocidad_res (snd p) = 0.025 / area_seccion 0.1541)"
proof -
  obtain res where res:
    "calcular_sistema_completo fsolve_stalled 0.025 0.1541 998 0.001 0.000046 = Inr res"
    unfolding calcular_sistema_completo_def using resolver_tramos_default by blast
  from flow_continuity[OF res] res show ?thesis by (intro exI[of _ res]) blast
qed

section \<open>Monotonic dissipation within a station\<close>

text \<open>
  Claim C9. When the per-station frictional loss and the minor loss are not negative,
  the walk of a station emits five values of the energy grade line, each one at most the
  one before it, and the first at most the energy the walk starts from (the energy after
  the pump jump, in a pump segment).
\<close>

theorem monotonic_dissipation:
  assumes "0 \<le> hf_est" "0 \<le> hm_est"
  shows "\<exists>es. egl_puntos (recorrido hv x_inicio dist_sub z_est hf_est hm_est s)
                 = egl_puntos s @ es
           \<and> length es = 5
           \<and> sorted_wrt (\<ge>) (energia_actual s # es)"
proof -
  from fold_sub_paso[OF assms, of hv x_inicio dist_sub z_est "[1..n_puntos_sub]" s]
  show ?thesis unfolding recorrido_def by (auto simp: upto_1_5)
qed

theorem monotonic_dissipation_witness:
  "(0::real) \<le> 2 \<and> (0::real) \<le> 0.5
   \<and> (\<exists>es. egl_puntos (recorrido 0.1 0 182.53 100 2 0.5 (bomba 103 0 traza_inicial))
                 = egl_puntos (bomba 103 0 traza_inicial) @ es
           \<and> length es = 5
           \<and> sorted_wrt (\<ge>) (energia_actual (bomba 103 0 traza_inicial) # es))"
  using monotonic_dissipation[of 2 "0.5" "0.1" 0 "182.53" 100 "bomba 103 0 traza_inicial"]
  by simp

section \<open>Descending segments of the registry\<close>

text \<open>
  Claim C10. The segments 5, 6 and 7 of the registry are descending and have \<open>z = 0\<close>
  while their \<open>altura\<close> is -200, -200 and -100. So the per-station head that
  \<open>calcular_sistema_completo\<close> computes for each of them is the frictional loss plus the
  minor loss, with no elevation term, and the total head equals it. The energy trace
  takes the terrain from \<open>altura\<close>: walking such a segment moves the running elevation
  by its \<open>altura\<close>.
\<close>

theorem descending_registry:
  "z tramo_5 = 0 \<and> altura tramo_5 = - 200 \<and> es_bajada tramo_5
   \<and> z tramo_6 = 0 \<and> altura tramo_6 = - 200 \<and> es_bajada tramo_6
   \<and> z tramo_7 = 0 \<and> altura tramo_7 = - 100 \<and> es_bajada tramo_7
   \<and> lookup obtener_definicion_tramos 5 = Inr tramo_5
   \<and> lookup obtener_definicion_tramos 6 = Inr tramo_6
   \<and> lookup obtener_definicion_tramos 7 = Inr tramo_7
   \<and> (i \<in> {5, 6, 7} \<and> lookup obtener_definicion_tramos i = Inr defn
        \<and> calcular_sistema_completo solver Q D rho mu epsilon = Inr res \<longrightarrow>
        (\<exists>r. lookup res i = Inr r
           \<and> z_estacion r = 0
           \<and> carga_estacion r = perdidas_friccion_colebrook r + perdidas_menores_res r
           \<and> carga_total_res r = carga_estacion r
           \<and> (\<exists>s'. recorrer_tramo hv res i s = Inr s'
                 \<and> elev_acum s' = elev_acum s + altura defn)))"
proof -
  have reg: "z tramo_5 = 0 \<and> altura tramo_5 = - 200 \<and> es_bajada tramo_5
   \<and> z tramo_6 = 0 \<and> altura tramo_6 = - 200 \<and> es_bajada tramo_6
   \<and> z tramo_7 = 0 \<and> altura tramo_7 = - 100 \<and> es_bajada tramo_7"
    by (simp add: tramo_5_def tramo_6_def tramo_7_def)
  have main: "\<exists>r. lookup res i = Inr r
           \<and> z_estacion r = 0
           \<and> carga_estacion r = perdidas_friccion_colebrook r + perdidas_menores_res r
           \<and> carga_total_res r = carga_estacion r
           \<and> (\<exists>s'. recorrer_tramo hv res i s = Inr s'
                 \<and> elev_acum s' = elev_acum s + altura defn)"
    if h: "i \<in> {5, 6, 7} \<and> lookup obtener_definicion_tramos i = Inr defn
        \<and> calcular_sistema_completo solver Q D rho mu epsilon = Inr res"
  proof -
    from h have d: "defn = tramo_5 \<or> defn = tramo_6 \<or> defn = tramo_7"
      using lookup_registry by auto
    then have zn: "z defn = 0" "num_estaciones defn = 1"
      by (auto simp: tramo_5_def tramo_6_def tramo_7_def)
    from h have i7: "\<not> i > 7" by auto
    from sistema_lookup[of solver Q D rho mu epsilon res i defn] h obtain r0 where
      l: "lookup res i = Inr (eco defn r0)"
      and r0: "calcular_tramo solver Q D (longitud_tuberia defn) (z defn) rho mu epsilon
              (K_total defn) (num_estaciones defn) (es_bajada defn) = Inr r0"
      by blast
    note c = calcular_tramo_Inr[OF r0]
    have a: "z_estacion (eco defn r0) = 0" using c zn by simp
    have b: "carga_estacion (eco defn r0)
        = perdidas_friccion_colebrook (eco defn r0) + perdidas_menores_res (eco defn r0)"
      using c zn by simp
    have t: "carga_total_res (eco defn r0) = carga_estacion (eco defn r0)"
      using c zn by simp
    have n: "num_estaciones_res (eco defn r0) = 1" using c zn by simp
    have "recorrer_tramo hv res i s
        = Inr (estacion hv (eco defn r0) defn (distancia defn) (altura defn) s)"
      using h l n i7 by (simp add: recorrer_tramo_def Let_def)
    then have e: "\<exists>s'. recorrer_tramo hv res i s = Inr s'
                 \<and> elev_acum s' = elev_acum s + altura defn"
      by simp
    from l a b t e show ?thesis by blast
  qed
  from reg lookup_registry main show ?thesis by blast
qed

theorem descending_registry_witness:
  "\<exists>res r s'. (6::int) \<in> {5, 6, 7} \<and> lookup obtener_definicion_tramos 6 = Inr tramo_6
     \<and> calcular_sistema_completo fsolve_stalled 0.025 0.1541 998 0.001 0.000046 = Inr res
     \<and> lookup res 6 = Inr r
     \<and> z_estacion r = 0
     \<and> carga_estacion r = perdidas_friccion_colebrook r + perdidas_menores_res r
     \<and> carga_total_res r = carga_estacion r
     \<and> recorrer_tramo 0.1 res 6 traza_inicial = Inr s'
     \<and> elev_acum s' = elev_acum traza_inicial + altura tramo_6"
proof -
  obtain res where res:
    "calcular_sistema_completo fsolve_stalled 0.025 0.1541 998 0.001 0.000046 = Inr res"
    unfolding calcular_sistema_completo_def using resolver_tramos_default by blast
  have i: "(6::int) \<in> {5, 6, 7}" by simp
  have l: "lookup obtener_definicion_tramos 6 = Inr tramo_6" by (rule lookup_registry)
  from descending_registry[of 6 tramo_6 fsolve_stalled "0.025" "0.1541" 998 "0.001" "0.000046"
      res "0.1" traza_inicial] i l res
  show ?thesis by blast
qed

end
